theory Spec2Isabelle
  imports Complex_Main
begin

section \<open>Python values and exceptions\<close>

text \<open>
  The exceptions the modelled code can meet. \<open>CredentialUnavailable\<close> is the error the
  specification names for the credential vault; no statement of the source raises it.
\<close>

datatype error =
    ImportError | ValueError | TypeError | KeyError | IndexError | AttributeError
  | InvalidToken | DoesNotExist | IntegrityError | OverflowError | DatabaseError
  | NetworkError | FieldError | OSError | CredentialUnavailable

text \<open>
  Parsed JSON as Python holds it. A dict is an association list whose keys are distinct;
  \<open>dict_get\<close> is \<open>d.get(k)\<close>. Strings are byte strings (ASCII text).
\<close>

datatype json =
    JNull | JBool bool | JInt int | JStr string
  | JList "json list" | JDict "(string \<times> json) list"

definition dict_get :: "(string \<times> json) list \<Rightarrow> string \<Rightarrow> json option" where
  "dict_get d k = map_of d k"

section \<open>Credential vault: \<open>companies/models.py\<close>, \<open>matrix_integration/models.py\<close>\<close>

text \<open>
  The libraries the vault calls are parameters of the model: \<open>cryptography.fernet\<close>
  (which may fail to import), \<open>base64\<close> and \<open>json\<close>. \<open>fernet_key_ok\<close> says whether
  \<open>Fernet(key)\<close> accepts the key, \<open>fernet_decrypt\<close> is \<open>None\<close> where the library raises
  (\<open>InvalidToken\<close>), \<open>b64decode\<close> and \<open>json_loads\<close> likewise. The third argument of
  \<open>fernet_encrypt\<close> is the randomness and clock the library draws on.
\<close>

record vault_libs =
  fernet_available :: bool
  fernet_key_ok :: "string \<Rightarrow> bool"
  fernet_encrypt :: "string \<Rightarrow> string \<Rightarrow> string \<Rightarrow> string"
  fernet_decrypt :: "string \<Rightarrow> string \<Rightarrow> string option"
  urlsafe_b64encode :: "string \<Rightarrow> string"
  b64encode :: "string \<Rightarrow> string"
  b64decode :: "string \<Rightarrow> string option"
  json_dumps :: "json \<Rightarrow> string"
  json_loads :: "string \<Rightarrow> json option"

datatype config_status = Pending | Configured | Active | Inactive | Error

record bridge_configuration =
  company :: nat
  platform :: string
  status :: config_status
  encrypted_config :: "string option"
  error_message :: "string option"
  setup_completed_at :: "int option"
  last_sync_at :: "int option"

text \<open>
  \<open>getattr(settings, 'BRIDGE_ENCRYPTION_KEY', 'your-32-char-encryption-key-here-12345')\<close>:
  the setting is \<open>None\<close> when the attribute is missing.
\<close>

definition default_key :: string where
  "default_key = ''your-32-char-encryption-key-here-12345''"

definition key_string :: "string option \<Rightarrow> string" where
  "key_string setting = (case setting of None \<Rightarrow> default_key | Some k \<Rightarrow> k)"

text \<open>\<open>ljust(32, '0')\<close> below 32 characters, \<open>[:32]\<close> above.\<close>

definition fit32 :: "string \<Rightarrow> string" where
  "fit32 k =
     (if length k < 32 then k @ replicate (32 - length k) (CHR ''0'')
      else if length k > 32 then take 32 k
      else k)"

text \<open>\<open>base64.urlsafe_b64encode(key_string.encode()[:32])\<close>\<close>

definition fernet_key :: "vault_libs \<Rightarrow> string option \<Rightarrow> string" where
  "fernet_key L setting = urlsafe_b64encode L (take 32 (fit32 (key_string setting)))"

text \<open>
  \<open>set_encrypted_config\<close> catches \<open>ImportError\<close> only: a key that \<open>Fernet\<close> refuses
  raises \<open>ValueError\<close> to the caller.
\<close>

definition set_encrypted_config ::
  "vault_libs \<Rightarrow> string option \<Rightarrow> string \<Rightarrow> bridge_configuration \<Rightarrow> json
     \<Rightarrow> error + bridge_configuration" where
  "set_encrypted_config L setting entropy self config_data =
     (if fernet_available L then
        (let key = fernet_key L setting in
         if \<not> fernet_key_ok L key then Inl ValueError
         else Inr (self\<lparr>encrypted_config :=
                 Some (fernet_encrypt L key entropy (json_dumps L config_data))\<rparr>))
      else Inr (self\<lparr>encrypted_config := Some (b64encode L (json_dumps L config_data))\<rparr>))"

text \<open>
  \<open>get_decrypted_config\<close>: an absent or empty blob returns \<open>{}\<close> at once; every exception
  of the decryption, on either path, is caught and returns \<open>{}\<close>.
\<close>

definition get_decrypted_config ::
  "vault_libs \<Rightarrow> string option \<Rightarrow> bridge_configuration \<Rightarrow> error + json" where
  "get_decrypted_config L setting self =
     (case encrypted_config self of
        None \<Rightarrow> Inr (JDict [])
      | Some blob \<Rightarrow>
          if blob = [] then Inr (JDict [])
          else if fernet_available L then
            (let key = fernet_key L setting in
             if \<not> fernet_key_ok L key then Inr (JDict [])
             else (case fernet_decrypt L key blob of
                     None \<Rightarrow> Inr (JDict [])
                   | Some data \<Rightarrow>
                       (case json_loads L data of
                          None \<Rightarrow> Inr (JDict [])
                        | Some j \<Rightarrow> Inr j)))
          else (case b64decode L blob of
                  None \<Rightarrow> Inr (JDict [])
                | Some data \<Rightarrow>
                    (case json_loads L data of
                       None \<Rightarrow> Inr (JDict [])
                     | Some j \<Rightarrow> Inr j)))"

text \<open>
  \<open>BridgeCredentials\<close>: \<open>Fernet(settings.BRIDGE_ENCRYPTION_KEY.encode())\<close> with the
  setting as it is, and nothing caught.
\<close>

record bridge_credentials =
  encrypted_data :: string
  encryption_version :: string

definition encrypt_credentials ::
  "vault_libs \<Rightarrow> string \<Rightarrow> string \<Rightarrow> bridge_credentials \<Rightarrow> json \<Rightarrow> error + bridge_credentials" where
  "encrypt_credentials L setting entropy self data =
     (if \<not> fernet_key_ok L setting then Inl ValueError
      else Inr (self\<lparr>encrypted_data := fernet_encrypt L setting entropy (json_dumps L data)\<rparr>))"

definition decrypt_credentials :: "vault_libs \<Rightarrow> string \<Rightarrow> bridge_credentials \<Rightarrow> error + json" where
  "decrypt_credentials L setting self =
     (if \<not> fernet_key_ok L setting then Inl ValueError
      else (case fernet_decrypt L setting (encrypted_data self) of
              None \<Rightarrow> Inl InvalidToken
            | Some data \<Rightarrow>
                (case json_loads L data of None \<Rightarrow> Inl ValueError | Some j \<Rightarrow> Inr j)))"

text \<open>
  What the libraries promise: \<open>Fernet\<close> accepts the url-safe base64 of 32 bytes, a token
  decrypts under the key that made it and is never empty, base64 decoding inverts
  encoding and keeps non-empty text non-empty, and \<open>json.dumps\<close> never returns the
  empty string.
\<close>

definition libs_contract :: "vault_libs \<Rightarrow> bool" where
  "libs_contract L \<longleftrightarrow>
     (\<forall>raw. length raw = 32 \<longrightarrow> fernet_key_ok L (urlsafe_b64encode L raw)) \<and>
     (\<forall>k e d. fernet_key_ok L k \<longrightarrow>
        fernet_decrypt L k (fernet_encrypt L k e d) = Some d \<and> fernet_encrypt L k e d \<noteq> []) \<and>
     (\<forall>d. b64decode L (b64encode L d) = Some d) \<and>
     (\<forall>d. d \<noteq> [] \<longrightarrow> b64encode L d \<noteq> []) \<and>
     (\<forall>j. json_dumps L j \<noteq> [])"

text \<open>
  A stand-in for the libraries, used to run the model: the token is the key followed by
  the plaintext, base64 is the identity, and the JSON codec writes a flat dict of
  strings as \<open>k=v;\<close> entries. As in the library, \<open>Fernet\<close> accepts a key only when it
  is the encoding of 32 bytes; the encoding being the identity here, these are the
  strings of 32 characters.
\<close>

fun stub_entries :: "string \<Rightarrow> string option \<Rightarrow> string \<Rightarrow> (string \<times> json) list option" where
  "stub_entries k None [] = (if k = [] then Some [] else None)"
| "stub_entries k (Some v) [] = None"
| "stub_entries k None (c # cs) =
     (if c = CHR ''='' then stub_entries k (Some []) cs else stub_entries (k @ [c]) None cs)"
| "stub_entries k (Some v) (c # cs) =
     (if c = CHR '';'' then map_option ((#) (k, JStr v)) (stub_entries [] None cs)
      else stub_entries k (Some (v @ [c])) cs)"

fun stub_entry :: "string \<times> json \<Rightarrow> string" where
  "stub_entry (k, JStr v) = k @ ''='' @ v @ '';''"
| "stub_entry (k, _) = k @ ''=;''"

definition stub_dumps :: "json \<Rightarrow> string" where
  "stub_dumps j = (case j of JDict kvs \<Rightarrow> ''{'' @ concat (map stub_entry kvs) | _ \<Rightarrow> ''null'')"

definition stub_loads :: "string \<Rightarrow> json option" where
  "stub_loads s =
     (case s of
        [] \<Rightarrow> None
      | c # rest \<Rightarrow> if c = CHR ''{'' then map_option JDict (stub_entries [] None rest) else None)"

definition stub_libs :: vault_libs where
  "stub_libs =
     \<lparr> fernet_available = True,
       fernet_key_ok = (\<lambda>k. length k = 32),
       fernet_encrypt = (\<lambda>k e d. k @ d),
       fernet_decrypt = (\<lambda>k t. if length k = 32 \<and> take 32 t = k then Some (drop 32 t) else None),
       urlsafe_b64encode = (\<lambda>s. s),
       b64encode = (\<lambda>s. s),
       b64decode = (\<lambda>s. Some s),
       json_dumps = stub_dumps,
       json_loads = stub_loads \<rparr>"

definition sample_config :: bridge_configuration where
  "sample_config =
     \<lparr> company = 1, platform = ''whatsapp'', status = Pending, encrypted_config = None,
       error_message = None, setup_completed_at = None, last_sync_at = None \<rparr>"

definition sample_creds :: json where
  "sample_creds = JDict [(''access_token'', JStr ''secret_token_123'')]"



section \<open>Bridge configuration views: \<open>companies/bridge_views.py\<close>\<close>

text \<open>Python truthiness of a parsed value; \<open>None\<close> is also what \<open>d.get(k)\<close> gives for a missing key.\<close>

fun truthy :: "json \<Rightarrow> bool" where
  "truthy JNull = False"
| "truthy (JBool b) = b"
| "truthy (JInt n) = (n \<noteq> 0)"
| "truthy (JStr s) = (s \<noteq> [])"
| "truthy (JList xs) = (xs \<noteq> [])"
| "truthy (JDict d) = (d \<noteq> [])"

definition truthy_opt :: "json option \<Rightarrow> bool" where
  "truthy_opt v = (case v of None \<Rightarrow> False | Some j \<Rightarrow> truthy j)"

text \<open>The text of an exception, as \<open>str(e)\<close> stores it: abbreviated to the exception's class.\<close>

fun error_text :: "error \<Rightarrow> string" where
  "error_text ImportError = ''ImportError''"
| "error_text ValueError = ''ValueError''"
| "error_text TypeError = ''TypeError''"
| "error_text KeyError = ''KeyError''"
| "error_text IndexError = ''IndexError''"
| "error_text AttributeError = ''AttributeError''"
| "error_text InvalidToken = ''InvalidToken''"
| "error_text DoesNotExist = ''DoesNotExist''"
| "error_text IntegrityError = ''IntegrityError''"
| "error_text OverflowError = ''OverflowError''"
| "error_text DatabaseError = ''DatabaseError''"
| "error_text NetworkError = ''NetworkError''"
| "error_text FieldError = ''FieldError''"
| "error_text OSError = ''OSError''"
| "error_text CredentialUnavailable = ''CredentialUnavailable''"

text \<open>
  The result dict of a connection test: \<open>success\<close> and, on failure, \<open>error\<close>.
  The one authenticated call each tester makes is a parameter: for the HTTP platforms
  it gives the status code and the response text or raises (the request, or for
  Telegram the decoding of the answer), for Signal it gives the return code and stderr
  of \<open>signal-cli\<close>, or \<open>None\<close> when the process times out.
\<close>

record test_result =
  success :: bool
  test_error :: "string option"

record probes =
  http_get :: "string \<Rightarrow> error + (nat \<times> string)"
  signal_cli :: "error + (int \<times> string) option"

definition passed :: test_result where
  "passed = \<lparr>success = True, test_error = None\<rparr>"

definition failed :: "string \<Rightarrow> test_result" where
  "failed msg = \<lparr>success = False, test_error = Some msg\<rparr>"

text \<open>
  \<open>_test_whatsapp_connection\<close>, \<open>_test_instagram_connection\<close> and
  \<open>_test_facebook_connection\<close> share one shape: two credentials that must be truthy, then a
  GET that must answer 200. \<open>config_data.get\<close> raises \<open>AttributeError\<close> when the decrypted
  value is not a dict.
\<close>

definition test_graph_connection ::
  "probes \<Rightarrow> string \<Rightarrow> string \<Rightarrow> string \<Rightarrow> string \<Rightarrow> json \<Rightarrow> error + test_result" where
  "test_graph_connection P pf token_field id_field missing config_data =
     (case config_data of
        JDict d \<Rightarrow>
          if \<not> truthy_opt (dict_get d token_field) \<or> \<not> truthy_opt (dict_get d id_field)
          then Inr (failed missing)
          else (case http_get P pf of
                  Inl e \<Rightarrow> Inl e
                | Inr (code, body) \<Rightarrow>
                    if code = 200 then Inr passed
                    else Inr (failed (''API test failed: '' @ body)))
      | _ \<Rightarrow> Inl AttributeError)"

definition test_telegram_connection :: "probes \<Rightarrow> json \<Rightarrow> error + test_result" where
  "test_telegram_connection P config_data =
     (case config_data of
        JDict d \<Rightarrow>
          if \<not> truthy_opt (dict_get d ''bot_token'') then Inr (failed ''Missing bot token'')
          else (case http_get P ''telegram'' of
                  Inl e \<Rightarrow> Inl e
                | Inr (code, body) \<Rightarrow>
                    if code = 200 then Inr passed
                    else Inr (failed (''Bot API test failed: '' @ body)))
      | _ \<Rightarrow> Inl AttributeError)"

text \<open>\<open>_test_signal_connection\<close> catches the timeout and every other exception itself.\<close>

definition test_signal_connection :: "probes \<Rightarrow> json \<Rightarrow> error + test_result" where
  "test_signal_connection P config_data =
     (case config_data of
        JDict d \<Rightarrow>
          if \<not> truthy_opt (dict_get d ''phone_number'') then Inr (failed ''Missing phone number'')
          else (case signal_cli P of
                  Inl e \<Rightarrow> Inr (failed (''Signal CLI test error: '' @ error_text e))
                | Inr None \<Rightarrow> Inr (failed ''Signal CLI test timed out'')
                | Inr (Some (rc, err)) \<Rightarrow>
                    if rc = 0 then Inr passed
                    else Inr (failed (''Signal CLI test failed: '' @ err)))
      | _ \<Rightarrow> Inl AttributeError)"

text \<open>
  \<open>_test_bridge_connection\<close>: dispatch on the platform string; an exception of a tester
  becomes a failed result.
\<close>

definition test_bridge_connection ::
  "vault_libs \<Rightarrow> string option \<Rightarrow> probes \<Rightarrow> bridge_configuration \<Rightarrow> test_result" where
  "test_bridge_connection L setting P config =
     (case get_decrypted_config L setting config of
        Inl e \<Rightarrow> failed (error_text e)
      | Inr config_data \<Rightarrow>
          (let r =
             (if platform config = ''whatsapp'' then
                test_graph_connection P ''whatsapp'' ''access_token'' ''phone_number_id''
                  ''Missing access token or phone number ID'' config_data
              else if platform config = ''telegram'' then test_telegram_connection P config_data
              else if platform config = ''instagram'' then
                test_graph_connection P ''instagram'' ''access_token'' ''page_id''
                  ''Missing access token or page ID'' config_data
              else if platform config = ''facebook'' then
                test_graph_connection P ''facebook'' ''page_access_token'' ''page_id''
                  ''Missing page access token or page ID'' config_data
              else if platform config = ''signal'' then test_signal_connection P config_data
              else Inr (failed ''Unsupported platform''))
           in case r of Inl e \<Rightarrow> failed (error_text e) | Inr t \<Rightarrow> t))"

text \<open>
  A view returns the configuration as saved and the HTTP status with the \<open>status\<close>
  field of the body. \<open>valid\<close> is \<open>serializer.is_valid()\<close>, \<open>now\<close> is \<open>timezone.now()\<close>,
  and \<open>link\<close> is what the call \<open>matrix_service.initialize_company_bridge(...)\<close> raises,
  if anything.

  \<open>test\<close>: on a successful test the status is set to \<open>active\<close> and saved, and the
  room linkage is called after that; an exception anywhere sets \<open>error\<close>.
\<close>

definition test_view ::
  "vault_libs \<Rightarrow> string option \<Rightarrow> probes \<Rightarrow> error option \<Rightarrow> bool \<Rightarrow> int
     \<Rightarrow> bridge_configuration \<Rightarrow> bridge_configuration \<times> nat \<times> string" where
  "test_view L setting P link valid now config =
     (if \<not> valid then (config, 400, ''invalid'')
      else
        (let test_result = test_bridge_connection L setting P config in
         if success test_result then
           (let config' = config\<lparr>status := Active, setup_completed_at := Some now,
                                  last_sync_at := Some now, error_message := None\<rparr>
            in case link of
                 None \<Rightarrow> (config', 200, ''active'')
               | Some e \<Rightarrow>
                   (config'\<lparr>status := Error, error_message := Some (error_text e)\<rparr>,
                    500, ''error''))
         else
           (config\<lparr>status := Error,
                   error_message := Some (case test_error test_result of
                                            None \<Rightarrow> ''Test failed'' | Some m \<Rightarrow> m)\<rparr>,
            400, ''error'')))"

text \<open>
  \<open>activate\<close>: only from \<open>configured\<close>; the linkage is called first, and when it raises
  the configuration is left as it was.
\<close>

definition activate_view ::
  "error option \<Rightarrow> int \<Rightarrow> bridge_configuration \<Rightarrow> bridge_configuration \<times> nat \<times> string" where
  "activate_view link now config =
     (if status config \<noteq> Configured then (config, 400, ''not configured'')
      else (case link of
              None \<Rightarrow>
                (config\<lparr>status := Active, setup_completed_at := Some now,
                        last_sync_at := Some now\<rparr>, 200, ''active'')
            | Some e \<Rightarrow> (config, 500, ''error'')))"

text \<open>A WhatsApp configuration in \<open>pending\<close> whose stored credentials pass the test.\<close>

definition whatsapp_creds :: json where
  "whatsapp_creds =
     JDict [(''access_token'', JStr ''test_token''), (''phone_number_id'', JStr ''123456789'')]"

definition pending_whatsapp :: bridge_configuration where
  "pending_whatsapp =
     sample_config\<lparr>encrypted_config :=
       Some (fernet_encrypt stub_libs (fernet_key stub_libs None) ''iv''
              (json_dumps stub_libs whatsapp_creds))\<rparr>"

definition probes_ok :: probes where
  "probes_ok = \<lparr>http_get = (\<lambda>pf. Inr (200, ''{}'')), signal_cli = Inr (Some (0, []))\<rparr>"


section \<open>AI scorer: \<open>matrix_integration/services/ai_service.py\<close>\<close>

text \<open>ASCII text helpers: \<open>str.lower()\<close>, \<open>str.split()\<close> and the \<open>in\<close> test on strings.\<close>

definition lower_char :: "char \<Rightarrow> char" where
  "lower_char c =
     (case map_of (zip ''ABCDEFGHIJKLMNOPQRSTUVWXYZ'' ''abcdefghijklmnopqrstuvwxyz'') c of
        None \<Rightarrow> c | Some l \<Rightarrow> l)"

definition upper_char :: "char \<Rightarrow> char" where
  "upper_char c =
     (case map_of (zip ''abcdefghijklmnopqrstuvwxyz'' ''ABCDEFGHIJKLMNOPQRSTUVWXYZ'') c of
        None \<Rightarrow> c | Some u \<Rightarrow> u)"

definition lower :: "string \<Rightarrow> string" where
  "lower s = map lower_char s"

definition is_space :: "char \<Rightarrow> bool" where
  "is_space c \<longleftrightarrow> c \<in> set [CHR '' '', CHR 0x09, CHR 0x0A, CHR 0x0B, CHR 0x0C, CHR 0x0D,
                              CHR 0x1C, CHR 0x1D, CHR 0x1E, CHR 0x1F]"

fun split_words :: "string \<Rightarrow> string \<Rightarrow> string list" where
  "split_words w [] = (if w = [] then [] else [w])"
| "split_words w (c # cs) =
     (if is_space c then (if w = [] then split_words [] cs else w # split_words [] cs)
      else split_words (w @ [c]) cs)"

definition split :: "string \<Rightarrow> string list" where
  "split s = split_words [] s"

fun contains :: "string \<Rightarrow> string \<Rightarrow> bool" where
  "contains pat [] = (pat = [])"
| "contains pat (c # cs) = (take (length pat) (c # cs) = pat \<or> contains pat cs)"

text \<open>\<open>calculate_confidence\<close>: the message is not looked at.\<close>

definition generic_phrases :: "string list" where
  "generic_phrases = [''i can help'', ''let me assist'', ''please contact'']"

definition calculate_confidence :: "string \<Rightarrow> string \<Rightarrow> rat" where
  "calculate_confidence message response =
     (if length (split response) < 3 then 3 / 10
      else if \<exists>phrase \<in> set generic_phrases. contains phrase (lower response) then 6 / 10
      else if length (split response) > 10 then 9 / 10
      else 7 / 10)"

record ai_response =
  content :: string
  confidence :: rat
  model :: string

text \<open>
  \<open>AIAssistantConfig\<close>. \<open>enabled\<close> is what reading \<open>config.enabled\<close> gives: the
  class in \<open>models.py\<close> declares no field of that name, so the read may raise
  \<open>AttributeError\<close>.
\<close>

record ai_assistant_config =
  enabled :: "error + bool"
  system_prompt :: string
  auto_respond :: bool
  escalate_to_human :: bool
  confidence_threshold :: rat

section \<open>Bridge manager: \<open>matrix_integration/services/bridge_manager.py\<close>\<close>

datatype connection_status = BPending | Authenticating | Connected | BError | Disconnected

record bridge_connection =
  bc_id :: nat
  bc_company :: nat
  bc_platform :: string
  bc_status :: connection_status
  bc_last_connected :: "int option"

text \<open>
  The row that \<open>BridgeMessage.objects.create\<close> is given, under the keyword names the
  manager uses for it; whether the insert succeeds is a parameter (\<open>w_insert\<close> below).
\<close>

record bridge_message =
  bm_bridge :: nat
  bm_external_id :: json
  bm_customer_name :: json
  bm_content :: json
  bm_direction :: string
  bm_status :: string
  bm_raw_data :: "json option"

text \<open>
  The manager's \<open>platform_services\<close> dict (its keys, \<open>f"{platform}_{id}"\<close>, as pairs) and
  the two tables it writes.
\<close>

record manager_state =
  platform_services :: "(string \<times> nat) list"
  connections :: "bridge_connection list"
  bridge_messages :: "bridge_message list"

text \<open>
  What the manager calls is a parameter of its model: the stored credentials with their
  JSON text parsed, the platform service's constructor and its methods
  \<open>initialize_connection\<close>, \<open>send_message\<close> and \<open>parse_webhook_data\<close>, the ORM insert of a
  \<open>BridgeMessage\<close>, the Matrix service, the stored \<open>AIAssistantConfig\<close>, the query for
  the recent messages (\<open>w_recent\<close>: what it raises, if anything) and the Gemini client
  (\<open>None\<close> when no API key is configured, else the text it generates). Each may raise.
  A statement proved for every world holds for the classes of the repository as they
  stand, which are the world \<open>repo_world\<close> below, and for any repair of them.
\<close>

record world =
  w_credentials :: "nat \<Rightarrow> (error + json) option"
  w_construct :: "string \<Rightarrow> nat \<Rightarrow> json \<Rightarrow> error option"
  w_initialize_connection :: "nat \<Rightarrow> json \<Rightarrow> error + bool"
  w_send :: "nat \<Rightarrow> json \<Rightarrow> string \<Rightarrow> error + bool"
  w_parse :: "string \<Rightarrow> json \<Rightarrow> error + json"
  w_insert :: "bridge_message \<Rightarrow> error option"
  w_matrix_init :: "nat \<Rightarrow> error option"
  w_matrix_room :: "nat \<Rightarrow> error + string option"
  w_matrix_send :: "bridge_message \<Rightarrow> error option"
  w_ai_config :: "nat \<Rightarrow> ai_assistant_config option"
  w_recent :: "error option"
  w_genai :: "(string \<Rightarrow> json \<Rightarrow> bridge_message list \<Rightarrow> error + string) option"

definition supported_platforms :: "string list" where
  "supported_platforms = [''whatsapp'', ''telegram'', ''instagram'']"

text \<open>\<open>bridge_connection.save()\<close>: the row with this id is replaced, or added when there is none.\<close>

definition save_connection :: "bridge_connection \<Rightarrow> manager_state \<Rightarrow> manager_state" where
  "save_connection bc s =
     (if bc_id bc \<in> bc_id ` set (connections s)
      then s\<lparr>connections := map (\<lambda>r. if bc_id r = bc_id bc then bc else r) (connections s)\<rparr>
      else s\<lparr>connections := connections s @ [bc]\<rparr>)"

text \<open>
  \<open>initialize_bridge\<close>. The service is put into \<open>platform_services\<close> before
  \<open>initialize_connection\<close> is awaited, and every exception ends in status \<open>error\<close>.
\<close>

definition initialize_bridge ::
  "world \<Rightarrow> int \<Rightarrow> manager_state \<Rightarrow> bridge_connection \<Rightarrow> manager_state \<times> bool" where
  "initialize_bridge W now s bc =
     (let fail = (\<lambda>s'. (save_connection (bc\<lparr>bc_status := BError\<rparr>) s', False)) in
      if bc_platform bc \<notin> set supported_platforms then (s, False)
      else (case w_credentials W (bc_id bc) of
              None \<Rightarrow> (s, False)
            | Some (Inl e) \<Rightarrow> fail s
            | Some (Inr credentials_dict) \<Rightarrow>
                (case w_construct W (bc_platform bc) (bc_id bc) credentials_dict of
                   Some e \<Rightarrow> fail s
                 | None \<Rightarrow>
                     (let s1 = s\<lparr>platform_services :=
                                  (bc_platform bc, bc_id bc) # platform_services s\<rparr> in
                      case w_initialize_connection W (bc_company bc) credentials_dict of
                        Inl e \<Rightarrow> fail s1
                      | Inr False \<Rightarrow> fail s1
                      | Inr True \<Rightarrow>
                          (let bc' = bc\<lparr>bc_status := Connected, bc_last_connected := Some now\<rparr>;
                               s2 = save_connection bc' s1 in
                           case w_matrix_init W (bc_company bc) of
                             Some e \<Rightarrow> (save_connection (bc'\<lparr>bc_status := BError\<rparr>) s2, False)
                           | None \<Rightarrow> (s2, True))))))"

text \<open>
  The opening of \<open>send_message\<close> and of \<open>process_webhook_data\<close>: when the key is not
  in \<open>platform_services\<close> the bridge is initialised, and a failure returns \<open>False\<close>;
  then \<open>self.platform_services[bridge_key]\<close> is read, a \<open>KeyError\<close> when it is absent.
\<close>

definition ensure_service ::
  "world \<Rightarrow> int \<Rightarrow> manager_state \<Rightarrow> bridge_connection \<Rightarrow> manager_state \<times> bool" where
  "ensure_service W now s bc =
     (let (s1, ready) =
        (if (bc_platform bc, bc_id bc) \<notin> set (platform_services s)
         then initialize_bridge W now s bc else (s, True))
      in (s1, ready \<and> (bc_platform bc, bc_id bc) \<in> set (platform_services s1)))"

text \<open>
  \<open>send_message\<close>: the whole body is inside \<open>try\<close>, and \<open>except Exception\<close> returns
  \<open>False\<close>. The row is created after the platform service reported success, and
  \<open>return True\<close> follows it at once.
\<close>

definition outbound_row :: "bridge_connection \<Rightarrow> json \<Rightarrow> string \<Rightarrow> bridge_message" where
  "outbound_row bc external_id message =
     \<lparr> bm_bridge = bc_id bc, bm_external_id = external_id, bm_customer_name = JStr [],
       bm_content = JStr message, bm_direction = ''outbound'', bm_status = ''sent'',
       bm_raw_data = None \<rparr>"

definition send_message ::
  "world \<Rightarrow> int \<Rightarrow> manager_state \<Rightarrow> bridge_connection \<Rightarrow> json \<Rightarrow> string
     \<Rightarrow> manager_state \<times> bool" where
  "send_message W now s bc external_id message =
     (let (s1, ready) = ensure_service W now s bc in
      if \<not> ready then (s1, False)
      else (case w_send W (bc_id bc) external_id message of
              Inl e \<Rightarrow> (s1, False)
            | Inr False \<Rightarrow> (s1, False)
            | Inr True \<Rightarrow>
                (case w_insert W (outbound_row bc external_id message) of
                   Some e \<Rightarrow> (s1, False)
                 | None \<Rightarrow>
                     (s1\<lparr>bridge_messages :=
                           bridge_messages s1 @ [outbound_row bc external_id message]\<rparr>, True))))"

text \<open>
  \<open>AIService.generate_response\<close>: \<open>None\<close> without a client, on any exception and for an
  empty text; else the text with its computed confidence.
\<close>

definition generate_response ::
  "world \<Rightarrow> json \<Rightarrow> bridge_message list \<Rightarrow> ai_assistant_config \<Rightarrow> ai_response option" where
  "generate_response W message recent config =
     (case w_genai W of
        None \<Rightarrow> None
      | Some client \<Rightarrow>
          (case client (system_prompt config) message recent of
             Inl e \<Rightarrow> None
           | Inr text \<Rightarrow>
               if text = [] then None
               else Some \<lparr> content = text,
                           confidence = calculate_confidence [] text,
                           model = ''gemini-2.0-flash-001'' \<rparr>))"

text \<open>
  \<open>_process_with_ai\<close>: the last ten rows of this bridge and external id, oldest first,
  are the context; the query for them may raise. The response is sent whenever it has
  a non-empty \<open>content\<close>; its \<open>confidence\<close> is only logged. Every exception is caught
  and logged.
\<close>

definition recent_messages :: "manager_state \<Rightarrow> bridge_connection \<Rightarrow> json \<Rightarrow> bridge_message list" where
  "recent_messages s bc external_id =
     (let rows = filter (\<lambda>m. bm_bridge m = bc_id bc \<and> bm_external_id m = external_id)
                   (bridge_messages s)
      in drop (length rows - 10) rows)"

definition process_with_ai ::
  "world \<Rightarrow> int \<Rightarrow> manager_state \<Rightarrow> bridge_connection \<Rightarrow> bridge_message \<Rightarrow> manager_state" where
  "process_with_ai W now s bc message =
     (case w_ai_config W (bc_company bc) of
        None \<Rightarrow> s
      | Some config \<Rightarrow>
          (case enabled config of
             Inl e \<Rightarrow> s
           | Inr False \<Rightarrow> s
           | Inr True \<Rightarrow>
               (case w_recent W of
                  Some e \<Rightarrow> s
                | None \<Rightarrow>
                    (case generate_response W (bm_content message)
                            (recent_messages s bc (bm_external_id message)) config of
                       None \<Rightarrow> s
                     | Some response \<Rightarrow>
                         if content response = [] then s
                         else fst (send_message W now s bc (bm_external_id message)
                                     (content response))))))"

text \<open>\<open>_forward_to_matrix\<close>\<close>

definition forward_to_matrix ::
  "world \<Rightarrow> int \<Rightarrow> manager_state \<Rightarrow> bridge_connection \<Rightarrow> bridge_message
     \<Rightarrow> manager_state \<times> bool" where
  "forward_to_matrix W now s bc message =
     (case w_matrix_room W (bc_company bc) of
        Inl e \<Rightarrow> (s, False)
      | Inr None \<Rightarrow> (s, False)
      | Inr (Some room) \<Rightarrow>
          if room = [] then (s, False)
          else (case w_matrix_send W message of
                  Some e \<Rightarrow> (s, False)
                | None \<Rightarrow> (process_with_ai W now s bc message, True)))"

text \<open>
  \<open>process_webhook_data\<close>. The bridge is looked up by company, platform and status
  \<open>connected\<close>, twice; \<open>parsed_data['sender_id']\<close> and \<open>parsed_data['message']\<close> raise
  when the parsed value has no such key. No \<open>BridgeWebhook\<close> row is read or written.
\<close>

definition connected_bridge :: "manager_state \<Rightarrow> nat \<Rightarrow> string \<Rightarrow> bridge_connection option" where
  "connected_bridge s company_id pf =
     find (\<lambda>r. bc_company r = company_id \<and> bc_platform r = pf \<and> bc_status r = Connected)
       (connections s)"

definition subscript :: "json \<Rightarrow> string \<Rightarrow> error + json" where
  "subscript v k =
     (case v of
        JDict d \<Rightarrow> (case dict_get d k of None \<Rightarrow> Inl KeyError | Some x \<Rightarrow> Inr x)
      | _ \<Rightarrow> Inl TypeError)"

definition get_default :: "json \<Rightarrow> string \<Rightarrow> json \<Rightarrow> error + json" where
  "get_default v k dflt =
     (case v of
        JDict d \<Rightarrow> (case dict_get d k of None \<Rightarrow> Inr dflt | Some x \<Rightarrow> Inr x)
      | _ \<Rightarrow> Inl AttributeError)"

definition inbound_row ::
  "bridge_connection \<Rightarrow> json \<Rightarrow> json \<Rightarrow> json \<Rightarrow> json \<Rightarrow> bridge_message" where
  "inbound_row bc sender_id sender_name message webhook_data =
     \<lparr> bm_bridge = bc_id bc, bm_external_id = sender_id, bm_customer_name = sender_name,
       bm_content = message, bm_direction = ''inbound'', bm_status = ''received'',
       bm_raw_data = Some webhook_data \<rparr>"

text \<open>The part of \<open>process_webhook_data\<close> from \<open>parse_webhook_data\<close> on.\<close>

definition store_inbound ::
  "world \<Rightarrow> int \<Rightarrow> manager_state \<Rightarrow> string \<Rightarrow> nat \<Rightarrow> json \<Rightarrow> manager_state \<times> bool" where
  "store_inbound W now s1 pf company_id webhook_data =
     (case w_parse W pf webhook_data of
        Inl e \<Rightarrow> (s1, False)
      | Inr parsed_data \<Rightarrow>
          if \<not> truthy parsed_data then (s1, False)
          else (case connected_bridge s1 company_id pf of
                  None \<Rightarrow> (s1, False)
                | Some bc2 \<Rightarrow>
                    (case (subscript parsed_data ''sender_id'',
                           get_default parsed_data ''sender_name'' (JStr []),
                           subscript parsed_data ''message'') of
                       (Inr sender_id, Inr sender_name, Inr message) \<Rightarrow>
                         (let row = inbound_row bc2 sender_id sender_name message webhook_data in
                          case w_insert W row of
                            Some e \<Rightarrow> (s1, False)
                          | None \<Rightarrow>
                              forward_to_matrix W now
                                (s1\<lparr>bridge_messages := bridge_messages s1 @ [row]\<rparr>) bc2 row)
                     | _ \<Rightarrow> (s1, False))))"

definition process_webhook_data ::
  "world \<Rightarrow> int \<Rightarrow> manager_state \<Rightarrow> string \<Rightarrow> nat \<Rightarrow> json \<Rightarrow> manager_state \<times> bool" where
  "process_webhook_data W now s pf company_id webhook_data =
     (if pf \<notin> set supported_platforms then (s, False)
      else (case connected_bridge s company_id pf of
              None \<Rightarrow> (s, False)
            | Some bc \<Rightarrow>
                (let (s1, ready) = ensure_service W now s bc in
                 if \<not> ready then (s1, False)
                 else store_inbound W now s1 pf company_id webhook_data)))"

text \<open>The inbound rows of the table, in insertion order.\<close>

definition inbound_rows :: "manager_state \<Rightarrow> bridge_message list" where
  "inbound_rows s = filter (\<lambda>m. bm_direction m = ''inbound'') (bridge_messages s)"


text \<open>
  A stored AI configuration with auto-respond on and threshold 0.8. Reading its
  \<open>enabled\<close> raises, the class having no such field.
\<close>

definition sample_ai_config :: ai_assistant_config where
  "sample_ai_config =
     \<lparr> enabled = Inl AttributeError,
       system_prompt = ''You are a helpful customer service assistant.'',
       auto_respond = True, escalate_to_human = True, confidence_threshold = 8 / 10 \<rparr>"

text \<open>
  The world of the repository as it stands. Its parameters are the two tables the
  manager reads (which bridges have a \<open>BridgeCredentials\<close> row, and the
  \<open>AIAssistantConfig\<close> row of each company) and the Gemini client, which there is when
  the environment gives a \<open>GEMINI_API_KEY\<close>.
  \<^item> \<open>credentials.credentials_json\<close>: \<open>BridgeCredentials\<close> has no such attribute.
  \<^item> The adapters' constructors: \<open>WhatsAppService\<close> reads \<open>phone_number_id\<close> and
    \<open>access_token\<close> from the credentials and then \<open>settings.WHATSAPP_API_VERSION\<close>,
    which \<open>settings.py\<close> does not define; \<open>TelegramService\<close> and \<open>InstagramService\<close>
    take no arguments.
  \<^item> No adapter has \<open>initialize_connection\<close> or \<open>parse_webhook_data\<close>. Called with the
    manager's three arguments, \<open>send_message\<close> of \<open>WhatsAppService\<close> calls \<open>replace\<close> on
    the company id, a \<open>UUID\<close>, and those of the other two lack their fourth argument
    (the class of the exception is immaterial, the manager catching every one).
  \<^item> \<open>BridgeMessage\<close> has no field \<open>external_id\<close>, \<open>customer_name\<close>, \<open>status\<close> or
    \<open>raw_data\<close>: the insert raises \<open>TypeError\<close> and the query on \<open>external_id\<close> raises
    \<open>FieldError\<close>.
  \<^item> The \<open>matrix_service\<close> the manager imports has no \<open>initialize_company_bridge\<close>,
    \<open>get_company_bridge_room\<close> or \<open>send_message_via_bridge\<close>.
  \<^item> \<open>AIAssistantConfig\<close> has no field \<open>enabled\<close>.
\<close>

definition repo_world ::
  "(nat \<Rightarrow> bool) \<Rightarrow> (nat \<Rightarrow> ai_assistant_config option)
     \<Rightarrow> (string \<Rightarrow> json \<Rightarrow> bridge_message list \<Rightarrow> error + string) option \<Rightarrow> world" where
  "repo_world has_credentials ai_rows client =
     \<lparr> w_credentials = (\<lambda>b. if has_credentials b then Some (Inl AttributeError) else None),
       w_construct = (\<lambda>pf b c.
          if pf = ''whatsapp'' then
            (case subscript c ''phone_number_id'' of
               Inl e \<Rightarrow> Some e
             | Inr p \<Rightarrow>
                 (case subscript c ''access_token'' of
                    Inl e \<Rightarrow> Some e
                  | Inr t \<Rightarrow> Some AttributeError))
          else Some TypeError),
       w_initialize_connection = (\<lambda>c d. Inl AttributeError),
       w_send = (\<lambda>b x m. Inl AttributeError),
       w_parse = (\<lambda>pf d. Inl AttributeError),
       w_insert = (\<lambda>r. Some TypeError),
       w_matrix_init = (\<lambda>c. Some AttributeError),
       w_matrix_room = (\<lambda>c. Inl AttributeError),
       w_matrix_send = (\<lambda>m. Some AttributeError),
       w_ai_config = (\<lambda>c. map_option (\<lambda>cfg. cfg\<lparr>enabled := Inl AttributeError\<rparr>) (ai_rows c)),
       w_recent = Some FieldError,
       w_genai = client \<rparr>"

definition sample_bridge :: bridge_connection where
  "sample_bridge =
     \<lparr> bc_id = 7, bc_company = 1, bc_platform = ''whatsapp'', bc_status = Connected,
       bc_last_connected = None \<rparr>"

definition sample_state :: manager_state where
  "sample_state = \<lparr> platform_services = [], connections = [sample_bridge], bridge_messages = [] \<rparr>"

definition sample_payload :: json where
  "sample_payload =
     JDict [(''sender_id'', JStr ''+15550001''), (''sender_name'', JStr ''Ann''),
            (''message'', JStr ''hello'')]"


text \<open>
  The repository's world with a credentials row for every bridge, the sample AI
  configuration for every company and a client that answers every message with the
  same sentence; and the sample state with the tenant's only bridge in status \<open>error\<close>.
\<close>

definition sample_world :: world where
  "sample_world =
     repo_world (\<lambda>b. True) (\<lambda>c. Some sample_ai_config)
       (Some (\<lambda>prompt message recent. Inr ''We are open from nine to five.''))"

definition error_state :: manager_state where
  "error_state = sample_state\<lparr>connections := [sample_bridge\<lparr>bc_status := BError\<rparr>]\<rparr>"

section \<open>WhatsApp adapter parser: \<open>platform_services/whatsapp_service.py\<close>\<close>

text \<open>Sequencing of steps that may raise: the first exception ends the computation.\<close>

definition bind_err :: "error + 'a \<Rightarrow> ('a \<Rightarrow> error + 'b) \<Rightarrow> error + 'b" where
  "bind_err r f = (case r of Inl e \<Rightarrow> Inl e | Inr x \<Rightarrow> f x)"

text \<open>
  \<open>v[0]\<close> and \<open>for x in v\<close> on a parsed value: a list gives its elements, a string its
  characters, a dict iterates its keys and has no key \<open>0\<close>; anything else raises
  \<open>TypeError\<close>.
\<close>

definition index0 :: "json \<Rightarrow> error + json" where
  "index0 v =
     (case v of
        JList xs \<Rightarrow> (case xs of [] \<Rightarrow> Inl IndexError | x # _ \<Rightarrow> Inr x)
      | JStr s \<Rightarrow> (case s of [] \<Rightarrow> Inl IndexError | c # _ \<Rightarrow> Inr (JStr [c]))
      | JDict d \<Rightarrow> Inl KeyError
      | _ \<Rightarrow> Inl TypeError)"

definition py_iter :: "json \<Rightarrow> error + json list" where
  "py_iter v =
     (case v of
        JList xs \<Rightarrow> Inr xs
      | JStr s \<Rightarrow> Inr (map (\<lambda>c. JStr [c]) s)
      | JDict d \<Rightarrow> Inr (map (\<lambda>kv. JStr (fst kv)) d)
      | _ \<Rightarrow> Inl TypeError)"

text \<open>
  \<open>str.title()\<close> on ASCII text: a letter that follows a letter is lowered, any other
  letter is raised.
\<close>

fun title_from :: "bool \<Rightarrow> string \<Rightarrow> string" where
  "title_from prev [] = []"
| "title_from prev (c # cs) =
     (if lower_char c \<noteq> c then (if prev then lower_char c else c) # title_from True cs
      else if upper_char c \<noteq> c then (if prev then c else upper_char c) # title_from True cs
      else c # title_from False cs)"

definition title :: "string \<Rightarrow> string" where
  "title s = title_from False s"

text \<open>
  An f-string field \<open>{v}\<close>: a string is inserted as it is; \<open>str_of\<close>, a parameter, is
  Python's \<open>str()\<close> of any other value.
\<close>

definition py_str :: "(json \<Rightarrow> string) \<Rightarrow> json \<Rightarrow> string" where
  "py_str str_of v = (case v of JStr s \<Rightarrow> s | _ \<Rightarrow> str_of v)"

text \<open>The dict that \<open>process_incoming_message\<close> returns.\<close>

record inbound_event =
  ev_external_id :: json
  ev_content :: json
  ev_type :: json
  ev_sender_id :: json
  ev_sender_name :: json
  ev_timestamp :: json
  ev_raw_message :: json

definition captioned ::
  "(json \<Rightarrow> string) \<Rightarrow> json \<Rightarrow> string \<Rightarrow> string \<Rightarrow> string \<Rightarrow> string \<Rightarrow> error + json" where
  "captioned str_of message field key dflt tag =
     bind_err (get_default message field (JDict [])) (\<lambda>part.
     bind_err (get_default part key (JStr dflt)) (\<lambda>caption.
     Inr (JStr (tag @ py_str str_of caption))))"

definition message_content :: "(json \<Rightarrow> string) \<Rightarrow> json \<Rightarrow> json \<Rightarrow> error + json" where
  "message_content str_of message message_type =
     (if message_type = JStr ''text'' then
        bind_err (get_default message ''text'' (JDict [])) (\<lambda>t. get_default t ''body'' (JStr []))
      else if message_type = JStr ''image'' then
        captioned str_of message ''image'' ''caption'' ''Image received'' ''[Image] ''
      else if message_type = JStr ''document'' then
        captioned str_of message ''document'' ''filename'' ''Document received'' ''[Document] ''
      else if message_type = JStr ''audio'' then Inr (JStr ''[Audio message received]'')
      else if message_type = JStr ''video'' then
        captioned str_of message ''video'' ''caption'' ''Video received'' ''[Video] ''
      else (case message_type of
              JStr mt \<Rightarrow> Inr (JStr (''['' @ title mt @ ''] Unsupported message type''))
            | _ \<Rightarrow> Inl AttributeError))"

definition sender_name_of :: "json \<Rightarrow> error + json" where
  "sender_name_of value =
     bind_err (get_default value ''contacts'' (JList [])) (\<lambda>contacts.
       if truthy contacts then
         bind_err (index0 contacts) (\<lambda>contact.
         bind_err (get_default contact ''profile'' (JDict [])) (\<lambda>profile.
         get_default profile ''name'' (JStr [])))
       else Inr (JStr []))"

text \<open>The body of the inner loop, up to its \<open>return\<close>.\<close>

definition parse_message :: "(json \<Rightarrow> string) \<Rightarrow> json \<Rightarrow> json \<Rightarrow> error + inbound_event" where
  "parse_message str_of value message =
     bind_err (get_default message ''type'' (JStr ''unknown'')) (\<lambda>message_type.
     bind_err (message_content str_of message message_type) (\<lambda>content.
     bind_err (sender_name_of value) (\<lambda>sender_name.
     bind_err (subscript message ''id'') (\<lambda>message_id.
     bind_err (subscript message ''from'') (\<lambda>sender_id.
     bind_err (subscript message ''timestamp'') (\<lambda>ts.
     Inr \<lparr> ev_external_id = message_id, ev_content = content, ev_type = message_type,
           ev_sender_id = sender_id, ev_sender_name = sender_name, ev_timestamp = ts,
           ev_raw_message = message \<rparr>))))))"

text \<open>
  The two nested \<open>for\<close> statements. The \<open>return\<close> stands inside the inner one: the first message of the
  first change that has any message ends the function; a change without messages is
  passed over; when no change has a message the function falls off its end.
\<close>

fun scan_changes :: "(json \<Rightarrow> string) \<Rightarrow> json list \<Rightarrow> error + inbound_event option" where
  "scan_changes str_of [] = Inr None"
| "scan_changes str_of (change # rest) =
     (case get_default change ''value'' (JDict []) of
        Inl e \<Rightarrow> Inl e
      | Inr value \<Rightarrow>
          (case bind_err (get_default value ''messages'' (JList [])) py_iter of
             Inl e \<Rightarrow> Inl e
           | Inr [] \<Rightarrow> scan_changes str_of rest
           | Inr (message # _) \<Rightarrow>
               (case parse_message str_of value message of
                  Inl e \<Rightarrow> Inl e
                | Inr ev \<Rightarrow> Inr (Some ev))))"

text \<open>
  \<open>process_incoming_message\<close>: only \<open>entry[0]\<close> is read; every exception is caught and
  gives \<open>None\<close>.
\<close>

definition process_incoming_message :: "(json \<Rightarrow> string) \<Rightarrow> json \<Rightarrow> inbound_event option" where
  "process_incoming_message str_of webhook_data =
     (case bind_err (get_default webhook_data ''entry'' (JList [JDict []])) (\<lambda>entries.
           bind_err (index0 entries) (\<lambda>entry.
           bind_err (get_default entry ''changes'' (JList [JDict []])) (\<lambda>changes.
           bind_err (py_iter changes) (scan_changes str_of)))) of
        Inl e \<Rightarrow> None
      | Inr r \<Rightarrow> r)"

text \<open>
  WhatsApp-shaped payloads: a text message, and the payload that nests the messages of
  each change of each entry.
\<close>

definition wa_text :: "string \<Rightarrow> string \<Rightarrow> string \<Rightarrow> string \<Rightarrow> json" where
  "wa_text message_id sender ts body =
     JDict [(''id'', JStr message_id), (''from'', JStr sender), (''timestamp'', JStr ts),
            (''type'', JStr ''text''), (''text'', JDict [(''body'', JStr body)])]"

definition wa_change :: "json list \<Rightarrow> json" where
  "wa_change msgs =
     JDict [(''field'', JStr ''messages''),
            (''value'', JDict [(''messaging_product'', JStr ''whatsapp''),
                               (''messages'', JList msgs)])]"

definition wa_entry :: "json list list \<Rightarrow> json" where
  "wa_entry changes = JDict [(''id'', JStr ''0''), (''changes'', JList (map wa_change changes))]"

definition wa_payload :: "json list list list \<Rightarrow> json" where
  "wa_payload entries =
     JDict [(''object'', JStr ''whatsapp_business_account''),
            (''entry'', JList (map wa_entry entries))]"

definition no_str :: "json \<Rightarrow> string" where
  "no_str v = []"

definition two_messages :: json where
  "two_messages =
     wa_payload [[[wa_text ''wamid.1'' ''15550001'' ''1700000000'' ''first'',
                   wa_text ''wamid.2'' ''15550001'' ''1700000001'' ''second'']]]"


section \<open>Conversation store and WhatsApp webhook: \<open>messaging/models.py\<close>, \<open>messaging/services/whatsapp_service.py\<close>\<close>

record conversation =
  conv_id :: nat
  conv_company :: nat
  conv_external_id :: string
  conv_platform :: string
  conv_participants :: json
  conv_status :: string

record message =
  msg_conversation :: nat
  msg_direction :: string
  msg_message_type :: string
  msg_content :: string
  msg_sender_info :: json
  msg_attachments :: json
  msg_metadata :: json
  msg_timestamp :: rat
  msg_is_processed :: bool
  msg_created_at :: int

text \<open>
  The tables, and the queue of \<open>generate_ai_response\<close> tasks (each the index of its
  message). A \<open>datetime\<close> is kept as its POSIX time in seconds; \<open>created_at\<close>
  (\<open>auto_now_add\<close>) is the arrival time of the row.
\<close>

record store =
  companies :: "nat list"
  conversations :: "conversation list"
  messages :: "message list"
  ai_tasks :: "nat list"

text \<open>
  The rows of one (company, external id, platform) triple, and the constraint
  \<open>unique_together = ['company', 'external_id', 'platform']\<close>.
\<close>

definition conv_key :: "conversation \<Rightarrow> nat \<times> string \<times> string" where
  "conv_key r = (conv_company r, conv_external_id r, conv_platform r)"

definition rows_of :: "store \<Rightarrow> nat \<times> string \<times> string \<Rightarrow> conversation list" where
  "rows_of s k = filter (\<lambda>r. conv_key r = k) (conversations s)"

definition unique_together :: "store \<Rightarrow> bool" where
  "unique_together s \<longleftrightarrow> distinct (map conv_key (conversations s))"

text \<open>
  The statements the database runs one at a time. \<open>get\<close> raises \<open>DoesNotExist\<close> for no
  row (and \<open>MultipleObjectsReturned\<close>, here \<open>DatabaseError\<close>, for several); the insert is
  refused with \<open>IntegrityError\<close> when a row of the triple is already there. A new row
  takes the next free id.
\<close>

definition get_conversation :: "store \<Rightarrow> nat \<times> string \<times> string \<Rightarrow> error + conversation" where
  "get_conversation s k =
     (case rows_of s k of
        [] \<Rightarrow> Inl DoesNotExist
      | [r] \<Rightarrow> Inr r
      | _ \<Rightarrow> Inl DatabaseError)"

definition new_conversation :: "store \<Rightarrow> nat \<times> string \<times> string \<Rightarrow> json \<Rightarrow> conversation" where
  "new_conversation s k participants =
     \<lparr> conv_id = length (conversations s), conv_company = fst k, conv_external_id = fst (snd k),
       conv_platform = snd (snd k), conv_participants = participants, conv_status = ''active'' \<rparr>"

definition insert_conversation ::
  "store \<Rightarrow> nat \<times> string \<times> string \<Rightarrow> json \<Rightarrow> error + store \<times> conversation" where
  "insert_conversation s k participants =
     (if rows_of s k \<noteq> [] then Inl IntegrityError
      else Inr (s\<lparr>conversations := conversations s @ [new_conversation s k participants]\<rparr>,
                new_conversation s k participants))"

text \<open>
  Django's \<open>get_or_create\<close>: \<open>get\<close>; on \<open>DoesNotExist\<close> the insert; on its
  \<open>IntegrityError\<close> a second \<open>get\<close>, and the \<open>IntegrityError\<close> again if that finds nothing.
\<close>

definition get_or_create ::
  "store \<Rightarrow> nat \<times> string \<times> string \<Rightarrow> json \<Rightarrow> error + store \<times> conversation \<times> bool" where
  "get_or_create s k participants =
     (case get_conversation s k of
        Inr r \<Rightarrow> Inr (s, r, False)
      | Inl e \<Rightarrow>
          if e \<noteq> DoesNotExist then Inl e
          else (case insert_conversation s k participants of
                  Inr (s', r) \<Rightarrow> Inr (s', r, True)
                | Inl e' \<Rightarrow>
                    (case get_conversation s k of
                       Inr r \<Rightarrow> Inr (s, r, False)
                     | Inl e2 \<Rightarrow> Inl e')))"

text \<open>
  \<open>int(x)\<close> on a parsed value. A string is stripped of surrounding whitespace, may
  start with one sign, and is decimal digits in groups joined by single underscores.
\<close>

definition strip :: "string \<Rightarrow> string" where
  "strip s = rev (dropWhile is_space (rev (dropWhile is_space s)))"

fun split_on :: "char \<Rightarrow> string \<Rightarrow> string \<Rightarrow> string list" where
  "split_on sep w [] = [w]"
| "split_on sep w (c # cs) = (if c = sep then w # split_on sep [] cs else split_on sep (w @ [c]) cs)"

definition digit_value :: "char \<Rightarrow> int option" where
  "digit_value c = map_of (zip ''0123456789'' [0, 1, 2, 3, 4, 5, 6, 7, 8, 9]) c"

fun decimal :: "int \<Rightarrow> string \<Rightarrow> int option" where
  "decimal acc [] = Some acc"
| "decimal acc (c # cs) =
     (case digit_value c of None \<Rightarrow> None | Some d \<Rightarrow> decimal (10 * acc + d) cs)"

definition parse_int :: "string \<Rightarrow> int option" where
  "parse_int s =
     (let t = strip s;
          neg = (take 1 t = ''-'');
          body = (if take 1 t = ''-'' \<or> take 1 t = ''+'' then drop 1 t else t);
          groups = split_on (CHR ''_'') [] body
      in if [] \<in> set groups then None
         else (case decimal 0 (concat groups) of
                 None \<Rightarrow> None
               | Some n \<Rightarrow> Some (if neg then - n else n)))"

definition py_int :: "json \<Rightarrow> error + int" where
  "py_int v =
     (case v of
        JInt n \<Rightarrow> Inr n
      | JBool b \<Rightarrow> Inr (if b then 1 else 0)
      | JStr s \<Rightarrow> (case parse_int s of None \<Rightarrow> Inl ValueError | Some n \<Rightarrow> Inr n)
      | _ \<Rightarrow> Inl TypeError)"

text \<open>
  \<open>datetime.fromtimestamp\<close> of a whole number of seconds, on 64-bit Linux with
  \<open>TIME_ZONE = 'UTC'\<close>. A time that does not fit the 64-bit \<open>time_t\<close> raises
  \<open>OverflowError\<close>; one whose year does not fit the C library's \<open>tm_year\<close> raises
  \<open>OSError\<close>; one outside the years 1 to 9999 raises \<open>ValueError\<close>. Without \<open>tz\<close> the
  time a day earlier is read too, to detect a repeated hour, and must lie in those
  years as well: the first day of year 1 is refused. With \<open>tz\<close> it is accepted.
\<close>

definition fromtimestamp_from :: "int \<Rightarrow> int \<Rightarrow> error + int" where
  "fromtimestamp_from earliest t =
     (if t < - 9223372036854775808 \<or> 9223372036854775808 \<le> t then Inl OverflowError
      else if t < - 67768040609740800 \<or> 67768036191676799 < t then Inl OSError
      else if earliest \<le> t \<and> t \<le> 253402300799 then Inr t
      else Inl ValueError)"

definition fromtimestamp :: "int \<Rightarrow> error + int" where
  "fromtimestamp t = fromtimestamp_from (- 62135510400) t"

definition fromtimestamp_tz :: "int \<Rightarrow> error + int" where
  "fromtimestamp_tz t = fromtimestamp_from (- 62135596800) t"

text \<open>
  What a \<open>CharField\<close> or \<open>TextField\<close> stores: a string as it is, \<open>str()\<close> of any other
  value, and \<open>IntegrityError\<close> for \<open>None\<close> (the columns are \<open>NOT NULL\<close>).
\<close>

definition char_value :: "(json \<Rightarrow> string) \<Rightarrow> json option \<Rightarrow> error + string" where
  "char_value str_of v =
     (case v of
        None \<Rightarrow> Inl IntegrityError
      | Some JNull \<Rightarrow> Inl IntegrityError
      | Some j \<Rightarrow> Inr (py_str str_of j))"

definition opt_json :: "json option \<Rightarrow> json" where
  "opt_json v = (case v of None \<Rightarrow> JNull | Some j \<Rightarrow> j)"

text \<open>
  The content, type and attachments of a message: the first of \<open>text\<close>, \<open>image\<close>,
  \<open>document\<close> that is a key of the message decides; none of them leaves an empty text.
\<close>

definition media_part ::
  "(string \<times> json) list \<Rightarrow> string \<Rightarrow> string \<Rightarrow> error + json \<times> string \<times> json" where
  "media_part d kind dflt =
     bind_err (subscript (JDict d) kind) (\<lambda>part.
     bind_err (get_default part ''caption'' (JStr dflt)) (\<lambda>caption.
     bind_err (subscript part ''id'') (\<lambda>media_id.
     Inr (caption, kind, JList [JDict [(''type'', JStr kind), (''id'', media_id)]]))))"

definition extract_content :: "(string \<times> json) list \<Rightarrow> error + json \<times> string \<times> json" where
  "extract_content d =
     (if dict_get d ''text'' \<noteq> None then
        bind_err (subscript (JDict d) ''text'') (\<lambda>t.
        bind_err (subscript t ''body'') (\<lambda>body. Inr (body, ''text'', JList [])))
      else if dict_get d ''image'' \<noteq> None then media_part d ''image'' ''Image received''
      else if dict_get d ''document'' \<noteq> None then media_part d ''document'' ''Document received''
      else Inr (JStr [], ''text'', JList []))"

text \<open>
  \<open>_process_incoming_message\<close>. The timestamp is converted first, then the conversation
  is got or created, then the content is read, then the message is created: an
  exception of a later step leaves what an earlier step stored.
\<close>

definition process_one ::
  "(json \<Rightarrow> string) \<Rightarrow> int \<Rightarrow> nat \<Rightarrow> store \<Rightarrow> json \<Rightarrow> store \<times> error option" where
  "process_one str_of now company_id s message_data =
     (case message_data of
        JDict d \<Rightarrow>
          (case bind_err (py_int (case dict_get d ''timestamp'' of None \<Rightarrow> JInt 0 | Some v \<Rightarrow> v))
                  fromtimestamp of
             Inl e \<Rightarrow> (s, Some e)
           | Inr ts \<Rightarrow>
               (case bind_err (char_value str_of (dict_get d ''from'')) (\<lambda>phone.
                       get_or_create s (company_id, phone, ''whatsapp'')
                         (JList [JDict [(''phone'', opt_json (dict_get d ''from''))]])) of
                  Inl e \<Rightarrow> (s, Some e)
                | Inr (s1, conv, created) \<Rightarrow>
                    (case bind_err (extract_content d) (\<lambda>(content, message_type, attachments).
                            bind_err (char_value str_of (Some content)) (\<lambda>text.
                            Inr (text, message_type, attachments))) of
                       Inl e \<Rightarrow> (s1, Some e)
                     | Inr (text, message_type, attachments) \<Rightarrow>
                         (s1\<lparr>messages := messages s1 @
                               [\<lparr> msg_conversation = conv_id conv, msg_direction = ''incoming'',
                                  msg_message_type = message_type, msg_content = text,
                                  msg_sender_info =
                                    JDict [(''phone'', opt_json (dict_get d ''from''))],
                                  msg_attachments = attachments,
                                  msg_metadata =
                                    JDict [(''whatsapp_message_id'', opt_json (dict_get d ''id''))],
                                  msg_timestamp = of_int ts, msg_is_processed = True,
                                  msg_created_at = now \<rparr>]\<rparr>, None))))
      | _ \<Rightarrow> (s, Some AttributeError))"

text \<open>The three nested \<open>for\<close> statements of \<open>process_webhook\<close>; the first exception ends them all.\<close>

fun process_messages ::
  "(json \<Rightarrow> string) \<Rightarrow> int \<Rightarrow> nat \<Rightarrow> store \<Rightarrow> json list \<Rightarrow> store \<times> error option" where
  "process_messages str_of now company_id s [] = (s, None)"
| "process_messages str_of now company_id s (m # ms) =
     (case process_one str_of now company_id s m of
        (s', Some e) \<Rightarrow> (s', Some e)
      | (s', None) \<Rightarrow> process_messages str_of now company_id s' ms)"

fun process_changes ::
  "(json \<Rightarrow> string) \<Rightarrow> int \<Rightarrow> nat \<Rightarrow> store \<Rightarrow> json list \<Rightarrow> store \<times> error option" where
  "process_changes str_of now company_id s [] = (s, None)"
| "process_changes str_of now company_id s (change # rest) =
     (case bind_err (get_default change ''value'' (JDict [])) (\<lambda>value.
           bind_err (get_default value ''messages'' (JList [])) py_iter) of
        Inl e \<Rightarrow> (s, Some e)
      | Inr msgs \<Rightarrow>
          (case process_messages str_of now company_id s msgs of
             (s', Some e) \<Rightarrow> (s', Some e)
           | (s', None) \<Rightarrow> process_changes str_of now company_id s' rest))"

fun process_entries ::
  "(json \<Rightarrow> string) \<Rightarrow> int \<Rightarrow> nat \<Rightarrow> store \<Rightarrow> json list \<Rightarrow> store \<times> error option" where
  "process_entries str_of now company_id s [] = (s, None)"
| "process_entries str_of now company_id s (entry # rest) =
     (case bind_err (get_default entry ''changes'' (JList [])) py_iter of
        Inl e \<Rightarrow> (s, Some e)
      | Inr changes \<Rightarrow>
          (case process_changes str_of now company_id s changes of
             (s', Some e) \<Rightarrow> (s', Some e)
           | (s', None) \<Rightarrow> process_entries str_of now company_id s' rest))"

text \<open>
  \<open>process_webhook\<close>: \<open>None\<close> is the result \<open>{"status": "processed"}\<close>, an error the result
  \<open>{"status": "failed", ...}\<close>. Nothing is rolled back on failure.
\<close>

definition process_webhook ::
  "(json \<Rightarrow> string) \<Rightarrow> int \<Rightarrow> store \<Rightarrow> json \<Rightarrow> nat \<Rightarrow> store \<times> error option" where
  "process_webhook str_of now s webhook_data company_id =
     (case get_default webhook_data ''entry'' JNull of
        Inl e \<Rightarrow> (s, Some e)
      | Inr entries \<Rightarrow>
          if \<not> truthy entries then (s, Some ValueError)
          else if company_id \<notin> set (companies s) then (s, Some DoesNotExist)
          else (case py_iter entries of
                  Inl e \<Rightarrow> (s, Some e)
                | Inr es \<Rightarrow> process_entries str_of now company_id s es))"


section \<open>Matrix bridge service: \<open>matrix_bridge_service.py\<close>\<close>

text \<open>
  \<open>process_bridge_message\<close>: the company is fetched, the conversation got or created,
  the message created with the event's millisecond timestamp, and the AI task queued
  when the company's settings ask for it. \<open>has_utc\<close>, a parameter, says whether
  \<open>django.utils.timezone\<close> has the attribute \<open>utc\<close>: it has before Django 5.0 and not
  since (the repository's migrations are generated by Django 5.2.3), and reading it
  then raises \<open>AttributeError\<close> while the arguments of \<open>Message.objects.create\<close> are
  computed, after the conversation is upserted. \<open>ai_settings\<close> is \<open>company.settings\<close>
  with its flags \<open>ai_enabled\<close> and \<open>auto_response_enabled\<close>, and \<open>enqueue\<close> is what
  \<open>generate_ai_response.delay\<close> raises, if anything. Every exception is caught and
  logged; nothing is returned.
\<close>

definition process_bridge_message ::
  "bool \<Rightarrow> (nat \<Rightarrow> (bool \<times> bool) option) \<Rightarrow> error option \<Rightarrow> int \<Rightarrow> store
     \<Rightarrow> string \<Rightarrow> string \<Rightarrow> nat \<Rightarrow> string \<Rightarrow> string \<Rightarrow> int \<Rightarrow> store" where
  "process_bridge_message has_utc ai_settings enqueue now s pf external_id company_id text sender
       ts =
     (if company_id \<notin> set (companies s) then s
      else (case get_or_create s (company_id, external_id, pf)
                   (JList [JDict [(''id'', JStr external_id), (''platform'', JStr pf)]]) of
              Inl e \<Rightarrow> s
            | Inr (s1, conv, created) \<Rightarrow>
                (case (if has_utc then fromtimestamp_tz (ts div 1000)
                       else Inl AttributeError) of
                   Inl e \<Rightarrow> s1
                 | Inr secs \<Rightarrow>
                     (let s2 = s1\<lparr>messages := messages s1 @
                                 [\<lparr> msg_conversation = conv_id conv, msg_direction = ''incoming'',
                                    msg_message_type = ''text'', msg_content = text,
                                    msg_sender_info =
                                      JDict [(''matrix_sender'', JStr sender),
                                             (''platform'', JStr pf)],
                                    msg_attachments = JList [], msg_metadata = JDict [],
                                    msg_timestamp = of_int ts / 1000, msg_is_processed = True,
                                    msg_created_at = now \<rparr>]\<rparr>
                      in case ai_settings company_id of
                           Some (True, True) \<Rightarrow>
                             (case enqueue of
                                None \<Rightarrow> s2\<lparr>ai_tasks := ai_tasks s2 @ [length (messages s1)]\<rparr>
                              | Some e \<Rightarrow> s2)
                         | _ \<Rightarrow> s2))))"

section \<open>Concurrent upserts of a conversation\<close>

text \<open>
  Several callers run \<open>get_or_create\<close> at once. Each is at one of its database
  statements: the first \<open>get\<close>, the insert, the \<open>get\<close> after a refused insert; or it has
  returned a row, or raised.
\<close>

datatype phase = Start | Inserting | Retrying | Done conversation | Failed error

record upsert =
  target :: "nat \<times> string \<times> string"
  defaults :: json
  phase :: phase

text \<open>One statement of one caller, run atomically by the database.\<close>

definition upsert_step :: "store \<Rightarrow> upsert \<Rightarrow> store \<times> upsert" where
  "upsert_step s u =
     (case phase u of
        Start \<Rightarrow>
          (case get_conversation s (target u) of
             Inr r \<Rightarrow> (s, u\<lparr>phase := Done r\<rparr>)
           | Inl e \<Rightarrow>
               if e \<noteq> DoesNotExist then (s, u\<lparr>phase := Failed e\<rparr>)
               else (s, u\<lparr>phase := Inserting\<rparr>))
      | Inserting \<Rightarrow>
          (case insert_conversation s (target u) (defaults u) of
             Inr (s', r) \<Rightarrow> (s', u\<lparr>phase := Done r\<rparr>)
           | Inl e \<Rightarrow> (s, u\<lparr>phase := Retrying\<rparr>))
      | Retrying \<Rightarrow>
          (case get_conversation s (target u) of
             Inr r \<Rightarrow> (s, u\<lparr>phase := Done r\<rparr>)
           | Inl e \<Rightarrow> (s, u\<lparr>phase := Failed IntegrityError\<rparr>))
      | Done r \<Rightarrow> (s, u)
      | Failed e \<Rightarrow> (s, u))"

fun finished :: "phase \<Rightarrow> bool" where
  "finished (Done r) = True"
| "finished (Failed e) = True"
| "finished p = False"

text \<open>Any caller that has not finished may run its next statement.\<close>

inductive step :: "store \<times> upsert list \<Rightarrow> store \<times> upsert list \<Rightarrow> bool" where
  step: "i < length us \<Longrightarrow> \<not> finished (phase (us ! i)) \<Longrightarrow> upsert_step s (us ! i) = (s', u')
           \<Longrightarrow> step (s, us) (s', us[i := u'])"

text \<open>The statements a caller still has before it, at most.\<close>

fun remaining :: "phase \<Rightarrow> nat" where
  "remaining Start = 3"
| "remaining Inserting = 2"
| "remaining Retrying = 1"
| "remaining p = 0"

text \<open>One caller run alone to its end.\<close>

definition run_alone :: "store \<Rightarrow> upsert \<Rightarrow> store \<times> upsert" where
  "run_alone s u =
     (let (s1, u1) = upsert_step s u; (s2, u2) = upsert_step s1 u1 in upsert_step s2 u2)"

text \<open>What the invariant of the interleaving says of one caller.\<close>

definition settled :: "store \<Rightarrow> upsert \<Rightarrow> bool" where
  "settled s u =
     (case phase u of
        Start \<Rightarrow> True
      | Inserting \<Rightarrow> True
      | Retrying \<Rightarrow> rows_of s (target u) \<noteq> []
      | Done r \<Rightarrow> rows_of s (target u) = [r]
      | Failed e \<Rightarrow> False)"

definition empty_store :: store where
  "empty_store = \<lparr> companies = [1], conversations = [], messages = [], ai_tasks = [] \<rparr>"

definition acme_whatsapp :: "nat \<times> string \<times> string" where
  "acme_whatsapp = (1, ''+15550001'', ''whatsapp'')"

definition caller :: "phase \<Rightarrow> upsert" where
  "caller p = \<lparr> target = acme_whatsapp, defaults = JList [JDict [(''phone'', JStr ''+15550001'')]],
                phase = p \<rparr>"

definition acme_row :: conversation where
  "acme_row = new_conversation empty_store acme_whatsapp (defaults (caller Start))"


text \<open>
  Three messages for the store: one without a timestamp, one dated in the year 3000, one
  dated a day before the epoch.
\<close>

definition no_timestamp :: json where
  "no_timestamp =
     JDict [(''id'', JStr ''wamid.3''), (''from'', JStr ''15550001''),
            (''text'', JDict [(''body'', JStr ''hi'')])]"

definition far_future :: json where
  "far_future = wa_text ''wamid.4'' ''15550001'' ''32503680000'' ''hi''"

definition before_epoch :: json where
  "before_epoch = wa_text ''wamid.5'' ''15550001'' ''-86400'' ''hi''"


text \<open>
  A text message as WhatsApp sends it, with a timestamp that \<open>int()\<close> and
  \<open>fromtimestamp\<close> accept; and the body of a message.
\<close>

definition plain_text :: "json \<Rightarrow> bool" where
  "plain_text m \<longleftrightarrow>
     (\<exists>i sender ts body n. m = wa_text i sender ts body \<and> parse_int ts = Some n \<and>
        fromtimestamp n = Inr n)"

definition text_body :: "json \<Rightarrow> string" where
  "text_body m =
     (case bind_err (subscript m ''text'') (\<lambda>t. subscript t ''body'') of
        Inr (JStr b) \<Rightarrow> b
      | _ \<Rightarrow> [])"


section \<open>Properties of the credential vault\<close>

lemma length_fit32 [simp]: "length (fit32 k) = 32"
  by (simp add: fit32_def)

lemma fernet_key_accepted:
  "libs_contract L \<Longrightarrow> fernet_key_ok L (fernet_key L setting)"
  by (simp add: libs_contract_def fernet_key_def)

lemma stub_libs_contract: "libs_contract stub_libs"
  by (auto simp: libs_contract_def stub_libs_def stub_dumps_def split: json.splits)

lemma stub_roundtrip_sample: "json_loads stub_libs (json_dumps stub_libs sample_creds) = Some sample_creds"
  by (simp add: stub_libs_def stub_dumps_def stub_loads_def sample_creds_def)





text \<open>
  Under the libraries' contracts, and for a credential map that \<open>json\<close> itself carries
  through \<open>dumps\<close> and \<open>loads\<close>, what \<open>set_encrypted_config\<close> stores
  \<open>get_decrypted_config\<close> returns unchanged, for every configuration (tenant and
  platform), setting and randomness; \<open>BridgeCredentials\<close> does the same under a key that
  \<open>Fernet\<close> accepts, and raises \<open>ValueError\<close> under any other.
\<close>

lemma credential_roundtrip:
  assumes "libs_contract L" and "json_loads L (json_dumps L creds) = Some creds"
  shows "(\<exists>self'. set_encrypted_config L setting entropy self creds = Inr self' \<and>
            get_decrypted_config L setting self' = Inr creds) \<and>
         (fernet_key_ok L k \<longrightarrow>
            (\<exists>b'. encrypt_credentials L k entropy b creds = Inr b' \<and>
               decrypt_credentials L k b' = Inr creds))"
proof
  have ok: "fernet_key_ok L (fernet_key L setting)"
    using assms(1) by (rule fernet_key_accepted)
  have fer: "\<And>k e d. fernet_key_ok L k \<Longrightarrow>
      fernet_decrypt L k (fernet_encrypt L k e d) = Some d \<and> fernet_encrypt L k e d \<noteq> []"
    using assms(1) by (simp add: libs_contract_def)
  have b64: "\<And>d. b64decode L (b64encode L d) = Some d"
    and b64ne: "\<And>d. d \<noteq> [] \<Longrightarrow> b64encode L d \<noteq> []"
    and dne: "\<And>j. json_dumps L j \<noteq> []"
    using assms(1) by (simp_all add: libs_contract_def)
  show "\<exists>self'. set_encrypted_config L setting entropy self creds = Inr self' \<and>
            get_decrypted_config L setting self' = Inr creds"
  proof (cases "fernet_available L")
    case True
    then show ?thesis
      using ok fer [OF ok] assms(2)
      by (simp add: set_encrypted_config_def get_decrypted_config_def Let_def)
  next
    case False
    then show ?thesis
      using b64 b64ne [OF dne] assms(2)
      by (simp add: set_encrypted_config_def get_decrypted_config_def)
  qed
  show "fernet_key_ok L k \<longrightarrow>
            (\<exists>b'. encrypt_credentials L k entropy b creds = Inr b' \<and>
               decrypt_credentials L k b' = Inr creds)"
    using fer assms(2) by (simp add: encrypt_credentials_def decrypt_credentials_def)
qed

lemma credentials_key_refused:
  "\<not> fernet_key_ok L k \<Longrightarrow>
     encrypt_credentials L k entropy b creds = Inl ValueError \<and>
     decrypt_credentials L k b = Inl ValueError"
  by (simp add: encrypt_credentials_def decrypt_credentials_def)

text \<open>
  C8 on \<open>BridgeCredentials\<close>: under the shipped default of \<open>BRIDGE_ENCRYPTION_KEY\<close>, which
  has 38 characters and is not the encoding of 32 bytes, \<open>encrypt_credentials\<close> raises
  \<open>ValueError\<close>: no blob is stored, and \<open>decrypt_credentials\<close> raises the same. The
  sibling \<open>set_encrypted_config\<close>, which fits the same setting to 32 bytes and encodes it
  first, stores a blob that \<open>get_decrypted_config\<close> reads back unchanged.
\<close>

theorem encrypt_credentials_default_key:
  "length default_key = 38 \<and>
   encrypt_credentials stub_libs default_key ''iv''
     \<lparr>encrypted_data = [], encryption_version = ''v1''\<rparr> sample_creds = Inl ValueError \<and>
   decrypt_credentials stub_libs default_key
     \<lparr>encrypted_data = [], encryption_version = ''v1''\<rparr> = Inl ValueError \<and>
   (\<exists>self'. set_encrypted_config stub_libs None ''iv'' sample_config sample_creds = Inr self' \<and>
      get_decrypted_config stub_libs None self' = Inr sample_creds)"
proof -
  have k: "length default_key = 38"
    by (simp add: default_key_def)
  then have "\<not> fernet_key_ok stub_libs default_key"
    by (simp add: stub_libs_def)
  from credentials_key_refused [OF this] k
    credential_roundtrip [OF stub_libs_contract stub_roundtrip_sample,
      where setting = None and entropy = "''iv''" and self = sample_config]
  show ?thesis by simp
qed

section \<open>Properties of the bridge configuration views\<close>

lemma pending_whatsapp_decrypts:
  "get_decrypted_config stub_libs None pending_whatsapp = Inr whatsapp_creds"
  by (simp add: pending_whatsapp_def get_decrypted_config_def stub_libs_def fernet_key_def
      key_string_def fit32_def default_key_def sample_config_def stub_dumps_def stub_loads_def
      whatsapp_creds_def)

lemma pending_whatsapp_test_passes:
  "success (test_bridge_connection stub_libs None probes_ok pending_whatsapp)"
  by (simp add: test_bridge_connection_def pending_whatsapp_decrypts)
     (simp add: pending_whatsapp_def sample_config_def test_graph_connection_def whatsapp_creds_def
      dict_get_def truthy_opt_def probes_ok_def passed_def)

text \<open>
  C6, as stated, fails: a configuration in \<open>pending\<close> whose connection test succeeds
  leaves the \<open>test\<close> action in \<open>active\<close>, not in \<open>configured\<close>.
\<close>

theorem test_view_pending_counterexample:
  "status pending_whatsapp = Pending \<and>
   success (test_bridge_connection stub_libs None probes_ok pending_whatsapp) \<and>
   status (fst (test_view stub_libs None probes_ok None True 1700000000 pending_whatsapp)) = Active \<and>
   status (fst (test_view stub_libs None probes_ok None True 1700000000 pending_whatsapp))
     \<noteq> Configured"
  using pending_whatsapp_test_passes
  by (simp add: test_view_def Let_def) (simp add: pending_whatsapp_def sample_config_def)

text \<open>
  C6, amended: for every bridge configuration in \<open>pending\<close>, a successful connection test
  in the \<open>test\<close> action, followed by a room-linkage call that raises nothing, moves the
  status directly to \<open>active\<close>; the \<open>activate\<close> action moves \<open>configured\<close> to \<open>active\<close>
  when the linkage call raises nothing, and changes nothing otherwise.
\<close>

theorem test_view_success_active:
  assumes "status config = Pending" and "valid"
    and "success (test_bridge_connection L setting P config)"
  shows "status (fst (test_view L setting P None valid now config)) = Active \<and>
         (status c = Configured \<longrightarrow> status (fst (activate_view None now c)) = Active) \<and>
         (status c \<noteq> Configured \<or> link \<noteq> None \<longrightarrow> fst (activate_view link now c) = c)"
  using assms by (auto simp: test_view_def activate_view_def Let_def split: option.splits)

theorem test_view_success_active_witness:
  "status pending_whatsapp = Pending \<and>
   success (test_bridge_connection stub_libs None probes_ok pending_whatsapp) \<and>
   status (pending_whatsapp\<lparr>status := Configured\<rparr>) = Configured \<and>
   status (fst (test_view stub_libs None probes_ok None True 1700000000 pending_whatsapp)) = Active \<and>
   status (fst (activate_view None 1700000000 (pending_whatsapp\<lparr>status := Configured\<rparr>))) = Active \<and>
   fst (activate_view (Some NetworkError) 1700000000 (pending_whatsapp\<lparr>status := Configured\<rparr>))
     = pending_whatsapp\<lparr>status := Configured\<rparr>"
proof -
  have p: "status pending_whatsapp = Pending"
    by (simp add: pending_whatsapp_def sample_config_def)
  from test_view_success_active [OF p TrueI pending_whatsapp_test_passes,
      where c = "pending_whatsapp\<lparr>status := Configured\<rparr>" and link = "Some NetworkError"
        and now = 1700000000]
    p pending_whatsapp_test_passes
  show ?thesis by simp
qed

section \<open>Properties of the bridge manager\<close>

lemma initialize_bridge_rows:
  "bridge_messages (fst (initialize_bridge W now s bc)) = bridge_messages s"
  by (auto simp: initialize_bridge_def save_connection_def Let_def
      split: option.splits sum.splits bool.splits if_splits)

lemma ensure_service_rows:
  "bridge_messages (fst (ensure_service W now s bc)) = bridge_messages s"
  using initialize_bridge_rows [of W now s bc]
  by (auto simp: ensure_service_def split: prod.splits)

lemma send_message_rows:
  "bridge_messages (fst (send_message W now s bc x m)) =
     (if snd (send_message W now s bc x m)
      then bridge_messages s @ [outbound_row bc x m] else bridge_messages s)"
  using ensure_service_rows [of W now s bc]
  by (auto simp: send_message_def Let_def split: prod.splits option.splits sum.splits bool.splits)

lemma send_message_inbound:
  "inbound_rows (fst (send_message W now s bc x m)) = inbound_rows s"
  by (simp add: inbound_rows_def send_message_rows outbound_row_def)

lemma process_with_ai_inbound:
  "inbound_rows (process_with_ai W now s bc msg) = inbound_rows s"
  by (simp add: process_with_ai_def send_message_inbound
      split: option.splits sum.splits bool.splits)

lemma forward_to_matrix_inbound:
  "inbound_rows (fst (forward_to_matrix W now s bc msg)) = inbound_rows s"
  by (simp add: forward_to_matrix_def process_with_ai_inbound
      split: option.splits sum.splits)

lemma inbound_rows_append:
  "inbound_rows (s\<lparr>bridge_messages := bridge_messages s @ [inbound_row bc a b c d]\<rparr>)
     = inbound_rows s @ [inbound_row bc a b c d]"
  by (simp add: inbound_rows_def inbound_row_def)

lemma inbound_row_sel:
  "bm_raw_data (inbound_row bc a b c d) = Some d"
  "bm_direction (inbound_row bc a b c d) = ''inbound''"
  by (simp_all add: inbound_row_def)

lemma store_inbound_rows:
  assumes "snd (store_inbound W now s pf c d)"
  shows "\<exists>row. inbound_rows (fst (store_inbound W now s pf c d)) = inbound_rows s @ [row]
           \<and> bm_raw_data row = Some d \<and> bm_direction row = ''inbound''"
  using assms unfolding store_inbound_def
  by (auto simp: Let_def forward_to_matrix_inbound inbound_rows_append inbound_row_sel
      split: if_splits sum.splits option.splits)

lemma process_webhook_data_inbound:
  assumes "snd (process_webhook_data W now s pf c d)"
  shows "\<exists>row. inbound_rows (fst (process_webhook_data W now s pf c d)) = inbound_rows s @ [row]
           \<and> bm_raw_data row = Some d \<and> bm_direction row = ''inbound''"
proof -
  from assms obtain bc where bc: "connected_bridge s c pf = Some bc"
    and pf: "pf \<in> set supported_platforms"
    by (auto simp: process_webhook_data_def split: if_splits option.splits)
  obtain s1 ready where e: "ensure_service W now s bc = (s1, ready)"
    by (cases "ensure_service W now s bc")
  have s1: "inbound_rows s1 = inbound_rows s"
    using ensure_service_rows [of W now s bc] e by (simp add: inbound_rows_def)
  have eq: "process_webhook_data W now s pf c d =
      (if ready then store_inbound W now s1 pf c d else (s1, False))"
    using bc pf e by (simp add: process_webhook_data_def)
  with assms have "ready" and "snd (store_inbound W now s1 pf c d)"
    by (auto split: if_splits)
  with store_inbound_rows [of W now s1 pf c d] eq s1 show ?thesis by simp
qed

lemma process_webhook_data_not_connected:
  "connected_bridge s c pf = None \<Longrightarrow> process_webhook_data W now s pf c d = (s, False)"
  by (simp add: process_webhook_data_def)

lemma initialize_bridge_status:
  "initialize_bridge W now s (bc\<lparr>bc_status := st\<rparr>) = initialize_bridge W now s bc"
  by (simp add: initialize_bridge_def Let_def
      cong: option.case_cong sum.case_cong bool.case_cong if_cong)

lemma ensure_service_status:
  "ensure_service W now s (bc\<lparr>bc_status := st\<rparr>) = ensure_service W now s bc"
  by (simp add: ensure_service_def initialize_bridge_status)

lemma outbound_row_status:
  "outbound_row (bc\<lparr>bc_status := st\<rparr>) x m = outbound_row bc x m"
  by (simp add: outbound_row_def)

lemma send_message_status:
  "send_message W now s (bc\<lparr>bc_status := st\<rparr>) x m = send_message W now s bc x m"
  by (simp add: send_message_def ensure_service_status outbound_row_status
      cong: option.case_cong sum.case_cong bool.case_cong prod.case_cong if_cong)









lemma process_with_ai_rows:
  "bridge_messages (process_with_ai W now s bc msg) \<noteq> bridge_messages s \<Longrightarrow>
     \<exists>cfg r. w_ai_config W (bc_company bc) = Some cfg \<and> enabled cfg = Inr True \<and>
       generate_response W (bm_content msg) (recent_messages s bc (bm_external_id msg)) cfg = Some r \<and>
       content r \<noteq> [] \<and>
       bridge_messages (process_with_ai W now s bc msg) =
         bridge_messages s @ [outbound_row bc (bm_external_id msg) (content r)]"
  by (auto simp: process_with_ai_def send_message_rows
      split: option.splits sum.splits bool.splits if_splits)

text \<open>
  With the repository's classes the manager sends nothing and stores nothing:
  \<open>initialize_bridge\<close>, \<open>send_message\<close> and \<open>process_webhook_data\<close> return \<open>False\<close> and
  leave the table of bridge messages as it was, and \<open>_process_with_ai\<close> leaves the
  whole state as it was.
\<close>

lemma repo_initialize_bridge:
  "snd (initialize_bridge (repo_world h a g) now s bc) = False \<and>
   platform_services (fst (initialize_bridge (repo_world h a g) now s bc)) = platform_services s"
  by (simp add: initialize_bridge_def repo_world_def save_connection_def Let_def)

lemma repo_send_message:
  "snd (send_message (repo_world h a g) now s bc x m) = False"
proof (cases "(bc_platform bc, bc_id bc) \<in> set (platform_services s)")
  case True
  then have "ensure_service (repo_world h a g) now s bc = (s, True)"
    by (simp add: ensure_service_def)
  then show ?thesis
    by (simp add: send_message_def repo_world_def)
next
  case False
  then have "snd (ensure_service (repo_world h a g) now s bc) = False"
    using repo_initialize_bridge [of h a g now s bc]
    by (simp add: ensure_service_def split_beta)
  then show ?thesis
    by (cases "ensure_service (repo_world h a g) now s bc") (simp add: send_message_def)
qed




text \<open>
  C10: \<open>send_message\<close> always returns a state and a boolean (no exception reaches the
  caller), and the table of bridge messages is the old one when it returns \<open>False\<close>
  and the old one with the single outbound \<open>sent\<close> row appended when it returns \<open>True\<close>.
\<close>

theorem send_message_total_atomic:
  "\<exists>s' ok. send_message W now s bc x m = (s', ok) \<and>
     bridge_messages s' =
       (if ok then bridge_messages s @ [outbound_row bc x m] else bridge_messages s)"
  using send_message_rows [of W now s bc x m]
  by (cases "send_message W now s bc x m") simp

theorem send_message_total_atomic_witness:
  "snd (send_message sample_world 5 sample_state sample_bridge (JStr ''+15550001'') ''hi'') = False \<and>
   bridge_messages (fst (send_message sample_world 5 sample_state sample_bridge
                          (JStr ''+15550001'') ''hi'')) = bridge_messages sample_state"
proof -
  have f: "snd (send_message sample_world 5 sample_state sample_bridge (JStr ''+15550001'') ''hi'')
             = False"
    by code_simp
  from send_message_total_atomic [of sample_world 5 sample_state sample_bridge
      "JStr ''+15550001''" "''hi''"] f
  show ?thesis by auto
qed

text \<open>
  C7, as stated, fails: with the tenant's WhatsApp bridge in status \<open>error\<close>, an
  inbound delivery is not recorded: \<open>process_webhook_data\<close> returns \<open>False\<close> and leaves
  the state, with its empty table of messages, as it was, with the repository's
  classes and with any others.
\<close>

theorem inbound_error_status_counterexample:
  "map bc_status (connections error_state) = [BError] \<and>
   process_webhook_data sample_world 5 error_state ''whatsapp'' 1 sample_payload
     = (error_state, False) \<and>
   (\<forall>W now. process_webhook_data W now error_state ''whatsapp'' 1 sample_payload
     = (error_state, False)) \<and>
   bridge_messages error_state = []"
proof -
  have n: "connected_bridge error_state 1 ''whatsapp'' = None"
    by code_simp
  have "map bc_status (connections error_state) = [BError]" "bridge_messages error_state = []"
    by (simp_all add: error_state_def sample_state_def sample_bridge_def)
  with n show ?thesis
    by (simp add: process_webhook_data_def)
qed

text \<open>
  C7, amended: for every inbound delivery whose tenant has no bridge for that platform
  in status \<open>connected\<close> (so also when its bridge is in \<open>error\<close>),
  \<open>process_webhook_data\<close> records nothing and returns \<open>False\<close>; \<open>send_message\<close> does
  not look at the status of the bridge it is given.
\<close>

theorem inbound_requires_connected:
  "connected_bridge s c pf = None \<Longrightarrow>
     process_webhook_data W now s pf c d = (s, False) \<and>
     send_message W now s' (bc\<lparr>bc_status := st\<rparr>) x m = send_message W now s' bc x m"
  by (simp add: process_webhook_data_not_connected send_message_status)

theorem inbound_requires_connected_witness:
  "connected_bridge error_state 1 ''whatsapp'' = None \<and>
   bc_status (hd (connections error_state)) = BError \<and>
   process_webhook_data sample_world 5 error_state ''whatsapp'' 1 sample_payload
     = (error_state, False) \<and>
   send_message sample_world 5 error_state (sample_bridge\<lparr>bc_status := BError\<rparr>)
       (JStr ''+15550001'') ''hi''
     = send_message sample_world 5 error_state sample_bridge (JStr ''+15550001'') ''hi''"
proof -
  have n: "connected_bridge error_state 1 ''whatsapp'' = None"
    by code_simp
  have e: "bc_status (hd (connections error_state)) = BError"
    by code_simp
  from inbound_requires_connected [OF n, where W = sample_world and now = 5 and d = sample_payload
      and s' = error_state and bc = sample_bridge and st = BError
      and x = "JStr ''+15550001''" and m = "''hi''"] n e
  show ?thesis by simp
qed


section \<open>Properties of the conversation store\<close>

lemma conv_key_new [simp]: "conv_key (new_conversation s k p) = k"
  by (simp add: conv_key_def new_conversation_def)

lemma filter_key_le1:
  "distinct (map f xs) \<Longrightarrow> length (filter (\<lambda>r. f r = k) xs) \<le> 1"
proof (induction xs)
  case Nil
  then show ?case by simp
next
  case (Cons a xs)
  show ?case
  proof (cases "f a = k")
    case True
    from Cons.prems have "f a \<notin> f ` set xs" by simp
    with True have "\<forall>x\<in>set xs. f x \<noteq> k" by blast
    then have "filter (\<lambda>r. f r = k) xs = []"
      by (simp add: filter_empty_conv)
    with True show ?thesis by simp
  next
    case False
    with Cons show ?thesis by simp
  qed
qed

lemma rows_of_le1: "unique_together s \<Longrightarrow> length (rows_of s k) \<le> 1"
  using filter_key_le1 [of conv_key "conversations s" k]
  by (simp add: unique_together_def rows_of_def)

lemma rows_of_empty_iff: "rows_of s k = [] \<longleftrightarrow> k \<notin> conv_key ` set (conversations s)"
  by (auto simp: rows_of_def filter_empty_conv)

lemma get_conversation_unique:
  assumes "unique_together s"
  shows "get_conversation s k = (case rows_of s k of [] \<Rightarrow> Inl DoesNotExist | r # _ \<Rightarrow> Inr r)"
  using rows_of_le1 [OF assms, of k]
  by (cases "rows_of s k") (auto simp: get_conversation_def split: list.splits)

lemma get_conversation_found:
  "get_conversation s k = Inr r \<Longrightarrow> rows_of s k = [r]"
  by (auto simp: get_conversation_def split: list.splits)

lemma insert_conversation_ok:
  assumes "insert_conversation s k p = Inr (s', r)"
  shows "rows_of s k = []" and "r = new_conversation s k p"
    and "conversations s' = conversations s @ [r]"
    and "rows_of s' k = [r]" and "\<And>k'. k' \<noteq> k \<Longrightarrow> rows_of s' k' = rows_of s k'"
    and "unique_together s \<Longrightarrow> unique_together s'"
    and "messages s' = messages s"
  using assms
  by (auto simp: insert_conversation_def rows_of_def unique_together_def rows_of_empty_iff
      filter_empty_conv split: if_splits)

lemma insert_conversation_refused:
  "insert_conversation s k p = Inl e \<Longrightarrow> rows_of s k \<noteq> [] \<and> e = IntegrityError"
  by (auto simp: insert_conversation_def split: if_splits)

lemma upsert_step_target: "upsert_step s u = (s', u') \<Longrightarrow> target u' = target u"
  by (auto simp: upsert_step_def split: phase.splits sum.splits if_splits)

lemma upsert_step_settled:
  assumes "unique_together s" and "settled s u" and "upsert_step s u = (s', u')"
  shows "unique_together s' \<and> settled s' u'"
proof (cases "phase u")
  case Start
  with assms rows_of_le1 [OF assms(1), of "target u"] show ?thesis
    by (auto simp: upsert_step_def settled_def get_conversation_unique split: list.splits)
next
  case Inserting
  with assms show ?thesis
    by (auto simp: upsert_step_def settled_def split: sum.splits
        dest: insert_conversation_ok insert_conversation_refused)
next
  case Retrying
  with assms rows_of_le1 [OF assms(1), of "target u"] show ?thesis
    by (auto simp: upsert_step_def settled_def get_conversation_unique split: list.splits)
next
  case (Done r)
  with assms show ?thesis by (auto simp: upsert_step_def)
next
  case (Failed e)
  with assms show ?thesis by (auto simp: upsert_step_def)
qed

lemma upsert_step_others:
  assumes "settled s v" and "upsert_step s u = (s', u')"
  shows "settled s' v"
proof (cases "s' = s")
  case True
  with assms show ?thesis by simp
next
  case False
  with assms(2) obtain r where ins: "insert_conversation s (target u) (defaults u) = Inr (s', r)"
    by (auto simp: upsert_step_def split: phase.splits sum.splits if_splits)
  show ?thesis
  proof (cases "target v = target u")
    case True
    with assms(1) insert_conversation_ok(1) [OF ins] insert_conversation_ok(4) [OF ins]
    show ?thesis by (auto simp: settled_def split: phase.splits)
  next
    case False
    with assms(1) insert_conversation_ok(5) [OF ins, of "target v"]
    show ?thesis by (auto simp: settled_def split: phase.splits)
  qed
qed

lemma step_invariant:
  assumes "step (s, us) (s', us')" and "unique_together s" and "\<forall>u\<in>set us. settled s u"
  shows "unique_together s' \<and> (\<forall>u\<in>set us'. settled s' u)"
  using assms
proof (cases rule: step.cases)
  case (step i u')
  have ui: "us ! i \<in> set us" using step by simp
  from upsert_step_settled [OF assms(2) _ step(4)] ui assms(3)
  have a: "unique_together s'" "settled s' u'" by auto
  have "\<forall>v\<in>set us. settled s' v"
    using assms(3) upsert_step_others [OF _ step(4)] by blast
  with a step show ?thesis
    by (auto dest!: set_update_subset_insert [THEN subsetD])
qed

lemma reachable_invariant:
  assumes "rtranclp step (s0, us0) (s, us)" and "unique_together s0"
    and "\<forall>u\<in>set us0. settled s0 u"
  shows "unique_together s \<and> (\<forall>u\<in>set us. settled s u)"
  using assms
proof (induction "(s0, us0)" "(s, us)" arbitrary: s us rule: rtranclp.induct)
  case rtrancl_refl
  then show ?case by simp
next
  case (rtrancl_into_rtrancl b)
  obtain s1 us1 where b: "b = (s1, us1)" by (cases b)
  from rtrancl_into_rtrancl(2) [OF b rtrancl_into_rtrancl(4,5)]
  have "unique_together s1 \<and> (\<forall>u\<in>set us1. settled s1 u)" .
  with step_invariant [of s1 us1 s us] rtrancl_into_rtrancl(3) b show ?case by blast
qed


lemma settled_finished:
  "settled s u \<Longrightarrow> finished (phase u) \<Longrightarrow> \<exists>r. phase u = Done r \<and> rows_of s (target u) = [r]"
  by (cases "phase u") (auto simp: settled_def)

lemma upsert_step_remaining:
  "\<not> finished (phase u) \<Longrightarrow> upsert_step s u = (s', u') \<Longrightarrow>
     remaining (phase u') < remaining (phase u)"
  by (cases "phase u") (auto simp: upsert_step_def split: sum.splits if_splits)

lemma step_measure:
  assumes "step (s, us) (s', us')"
  shows "sum_list (map (\<lambda>u. remaining (phase u)) us') < sum_list (map (\<lambda>u. remaining (phase u)) us)"
  using assms
proof (cases rule: step.cases)
  case (step i u')
  from upsert_step_remaining [OF step(3,4)]
  have lt: "remaining (phase u') < remaining (phase (us ! i))" .
  have "sum_list (map (\<lambda>u. remaining (phase u)) (us[i := u'])) + remaining (phase (us ! i))
      = sum_list (map (\<lambda>u. remaining (phase u)) us) + remaining (phase u')"
  proof -
    have "remaining (phase (us ! i)) \<in> set (map (\<lambda>u. remaining (phase u)) us)"
      using step(2) nth_mem [of i us] by simp
    then have "remaining (phase (us ! i)) \<le> sum_list (map (\<lambda>u. remaining (phase u)) us)"
      by (auto intro!: member_le_sum_list)
    with step(2) show ?thesis
      by (simp add: map_update sum_list_update)
  qed
  with lt step(1) show ?thesis by simp
qed

lemma get_or_create_unique:
  assumes "unique_together s"
  shows "\<exists>s' r c. get_or_create s k p = Inr (s', r, c) \<and> unique_together s' \<and>
           rows_of s' k = [r] \<and> get_or_create s' k p = Inr (s', r, False) \<and>
           messages s' = messages s"
proof (cases "rows_of s k")
  case Nil
  then obtain s' r where ins: "insert_conversation s k p = Inr (s', r)"
    by (simp add: insert_conversation_def)
  from Nil have g: "get_conversation s k = Inl DoesNotExist"
    by (simp add: get_conversation_def)
  from insert_conversation_ok(4) [OF ins] have g': "get_conversation s' k = Inr r"
    by (simp add: get_conversation_def)
  from g g' ins insert_conversation_ok(4,6,7) [OF ins] assms show ?thesis
    by (auto simp: get_or_create_def)
next
  case (Cons r rs)
  with rows_of_le1 [OF assms, of k] have "rows_of s k = [r]" by simp
  then have "get_conversation s k = Inr r" by (simp add: get_conversation_def)
  with \<open>rows_of s k = [r]\<close> assms show ?thesis by (auto simp: get_or_create_def)
qed

lemma run_alone_get_or_create:
  "map_sum id (\<lambda>(s', r, c). (s', r)) (get_or_create s k p) =
     (case run_alone s \<lparr>target = k, defaults = p, phase = Start\<rparr> of
        (s', u') \<Rightarrow> (case phase u' of Done r \<Rightarrow> Inr (s', r) | Failed e \<Rightarrow> Inl e
                      | _ \<Rightarrow> Inl DatabaseError))"
  by (auto simp: run_alone_def get_or_create_def upsert_step_def
      split: sum.splits prod.splits if_splits dest: insert_conversation_refused)

lemma process_bridge_message_conversations:
  assumes "unique_together s" and "c \<in> set (companies s)"
  shows "unique_together (process_bridge_message utc A q now s pf x c body sender ts) \<and>
         length (rows_of (process_bridge_message utc A q now s pf x c body sender ts) (c, x, pf)) = 1"
proof -
  let ?p = "JList [JDict [(''id'', JStr x), (''platform'', JStr pf)]]"
  from get_or_create_unique [OF assms(1), of "(c, x, pf)" ?p]
  obtain s' r cr where g: "get_or_create s (c, x, pf) ?p = Inr (s', r, cr)"
    and u: "unique_together s'" and r: "rows_of s' (c, x, pf) = [r]"
    by blast
  have "conversations (process_bridge_message utc A q now s pf x c body sender ts) = conversations s'"
    using assms(2) g
    by (simp add: process_bridge_message_def Let_def
        split: sum.splits option.splits prod.splits bool.splits)
  with u r show ?thesis by (simp add: unique_together_def rows_of_def)
qed

text \<open>
  C3: from any store that satisfies the uniqueness constraint, with any number of
  callers upserting any triples at once, every interleaving of their database
  statements keeps the triple unique among the stored conversations; each caller that
  has finished has returned the one row of its triple (none has raised), so N
  concurrent upserts of one triple leave exactly one row. A further upsert of any
  triple then returns one row and, repeated, the same row and the same store; so does
  \<open>process_bridge_message\<close>.
\<close>

theorem upsert_exactly_one:
  assumes "unique_together s0" and "\<forall>u\<in>set us0. phase u = Start"
    and "rtranclp step (s0, us0) (s, us)"
  shows "unique_together s \<and>
         (\<forall>u\<in>set us. finished (phase u) \<longrightarrow>
            (\<exists>r. phase u = Done r \<and> rows_of s (target u) = [r])) \<and>
         (\<exists>s' r c. get_or_create s k p = Inr (s', r, c) \<and> unique_together s' \<and>
            rows_of s' k = [r] \<and> get_or_create s' k p = Inr (s', r, False)) \<and>
         (company_id \<in> set (companies s) \<longrightarrow>
            length (rows_of (process_bridge_message utc A q now s pf x company_id body sender ts)
                      (company_id, x, pf)) = 1)"
proof -
  from assms(2) have "\<forall>u\<in>set us0. settled s0 u" by (simp add: settled_def)
  from reachable_invariant [OF assms(3,1) this]
  have u: "unique_together s" and st: "\<forall>u\<in>set us. settled s u" by simp_all
  from st have "\<forall>u\<in>set us. finished (phase u) \<longrightarrow>
            (\<exists>r. phase u = Done r \<and> rows_of s (target u) = [r])"
    by (auto dest: settled_finished)
  moreover from get_or_create_unique [OF u, of k p]
  have "\<exists>s' r c. get_or_create s k p = Inr (s', r, c) \<and> unique_together s' \<and>
            rows_of s' k = [r] \<and> get_or_create s' k p = Inr (s', r, False)"
    by blast
  moreover have "company_id \<in> set (companies s) \<longrightarrow>
            length (rows_of (process_bridge_message utc A q now s pf x company_id body sender ts)
                      (company_id, x, pf)) = 1"
    using process_bridge_message_conversations [OF u] by blast
  ultimately show ?thesis using u by blast
qed

lemma run1: "step (empty_store, [caller Start, caller Start])
                  (empty_store, [caller Inserting, caller Start])"
  using step.intros [of 0 "[caller Start, caller Start]" empty_store empty_store "caller Inserting"]
  by (simp add: upsert_step_def caller_def get_conversation_def rows_of_def empty_store_def)

lemma run2: "step (empty_store, [caller Inserting, caller Start])
                  (empty_store, [caller Inserting, caller Inserting])"
  using step.intros [of 1 "[caller Inserting, caller Start]" empty_store empty_store "caller Inserting"]
  by (simp add: upsert_step_def caller_def get_conversation_def rows_of_def empty_store_def)

lemma run3: "step (empty_store, [caller Inserting, caller Inserting])
                  (empty_store\<lparr>conversations := [acme_row]\<rparr>, [caller (Done acme_row), caller Inserting])"
  using step.intros [of 0 "[caller Inserting, caller Inserting]" empty_store
      "empty_store\<lparr>conversations := [acme_row]\<rparr>" "caller (Done acme_row)"]
  by (simp add: upsert_step_def caller_def insert_conversation_def rows_of_def empty_store_def
      acme_row_def)

lemma run4: "step (empty_store\<lparr>conversations := [acme_row]\<rparr>, [caller (Done acme_row), caller Inserting])
                  (empty_store\<lparr>conversations := [acme_row]\<rparr>, [caller (Done acme_row), caller Retrying])"
  using step.intros [of 1 "[caller (Done acme_row), caller Inserting]"
      "empty_store\<lparr>conversations := [acme_row]\<rparr>"
      "empty_store\<lparr>conversations := [acme_row]\<rparr>" "caller Retrying"]
  by (simp add: upsert_step_def caller_def insert_conversation_def rows_of_def empty_store_def
      acme_row_def conv_key_def new_conversation_def acme_whatsapp_def)

lemma run5: "step (empty_store\<lparr>conversations := [acme_row]\<rparr>, [caller (Done acme_row), caller Retrying])
                  (empty_store\<lparr>conversations := [acme_row]\<rparr>, [caller (Done acme_row), caller (Done acme_row)])"
  using step.intros [of 1 "[caller (Done acme_row), caller Retrying]"
      "empty_store\<lparr>conversations := [acme_row]\<rparr>"
      "empty_store\<lparr>conversations := [acme_row]\<rparr>" "caller (Done acme_row)"]
  by (simp add: upsert_step_def caller_def get_conversation_def rows_of_def empty_store_def
      acme_row_def conv_key_def new_conversation_def acme_whatsapp_def)

lemma two_callers_run:
  "rtranclp step (empty_store, [caller Start, caller Start])
     (empty_store\<lparr>conversations := [acme_row]\<rparr>, [caller (Done acme_row), caller (Done acme_row)])"
  using run1 run2 run3 run4 run5 by (meson rtranclp.rtrancl_into_rtrancl rtranclp.rtrancl_refl)


theorem upsert_exactly_one_witness:
  "unique_together empty_store \<and>
   rtranclp step (empty_store, [caller Start, caller Start])
     (empty_store\<lparr>conversations := [acme_row]\<rparr>,
      [caller (Done acme_row), caller (Done acme_row)]) \<and>
   unique_together (empty_store\<lparr>conversations := [acme_row]\<rparr>) \<and>
   rows_of (empty_store\<lparr>conversations := [acme_row]\<rparr>) acme_whatsapp = [acme_row] \<and>
   length (rows_of (process_bridge_message False (\<lambda>c. None) None 1700000000
                      (empty_store\<lparr>conversations := [acme_row]\<rparr>)
                      ''whatsapp'' ''+15550001'' 1 ''hello'' ''@wa:matrix.nexus.local'' 1700000000123)
             (1, ''+15550001'', ''whatsapp'')) = 1"
proof -
  have u0: "unique_together empty_store"
    by (simp add: unique_together_def empty_store_def)
  have a0: "\<forall>u\<in>set [caller Start, caller Start]. phase u = Start"
    by (simp add: caller_def)
  have c: "(1::nat) \<in> set (companies (empty_store\<lparr>conversations := [acme_row]\<rparr>))"
    by (simp add: empty_store_def)
  have f: "finished (phase (caller (Done acme_row)))" "target (caller (Done acme_row)) = acme_whatsapp"
    "phase (caller (Done acme_row)) = Done acme_row"
    by (simp_all add: caller_def)
  from upsert_exactly_one [OF u0 a0 two_callers_run,
      where company_id = 1 and pf = "''whatsapp''" and x = "''+15550001''"
        and utc = False and A = "\<lambda>c. None" and q = None and now = 1700000000
        and body = "''hello''"
        and sender = "''@wa:matrix.nexus.local''" and ts = 1700000000123]
  have "unique_together (empty_store\<lparr>conversations := [acme_row]\<rparr>)"
    and "\<forall>u\<in>set [caller (Done acme_row), caller (Done acme_row)]. finished (phase u) \<longrightarrow>
            (\<exists>r. phase u = Done r \<and>
              rows_of (empty_store\<lparr>conversations := [acme_row]\<rparr>) (target u) = [r])"
    and "length (rows_of (process_bridge_message False (\<lambda>c. None) None 1700000000
                      (empty_store\<lparr>conversations := [acme_row]\<rparr>)
                      ''whatsapp'' ''+15550001'' 1 ''hello'' ''@wa:matrix.nexus.local'' 1700000000123)
             (1, ''+15550001'', ''whatsapp'')) = 1"
    using c by blast+
  with f u0 two_callers_run show ?thesis by auto
qed

section \<open>Properties of the WhatsApp webhook paths\<close>

lemma get_or_create_messages:
  "get_or_create s k p = Inr (s1, r, c) \<Longrightarrow> messages s1 = messages s"
  by (auto simp: get_or_create_def insert_conversation_def split: sum.splits if_splits)

lemma process_one_appended:
  assumes "process_one str_of now c s (JDict d) = (s', None)"
  shows "\<exists>m. messages s' = messages s @ [m] \<and> msg_created_at m = now \<and>
           (case dict_get d ''timestamp'' of
              None \<Rightarrow> msg_timestamp m = 0
            | Some v \<Rightarrow> \<exists>n. py_int v = Inr n \<and> msg_timestamp m = of_int n)"
proof -
  let ?raw = "case dict_get d ''timestamp'' of None \<Rightarrow> JInt 0 | Some v \<Rightarrow> v"
  from assms obtain ts where ts: "bind_err (py_int ?raw) fromtimestamp = Inr ts"
    by (auto simp: process_one_def split: sum.splits)
  then have n: "py_int ?raw = Inr ts"
    by (auto simp: bind_err_def fromtimestamp_def fromtimestamp_from_def
        split: sum.splits if_splits)
  from assms ts obtain s1 conv created where
    g: "bind_err (char_value str_of (dict_get d ''from'')) (\<lambda>phone.
          get_or_create s (c, phone, ''whatsapp'')
            (JList [JDict [(''phone'', opt_json (dict_get d ''from''))]])) = Inr (s1, conv, created)"
    by (auto simp: process_one_def split: sum.splits)
  then have m1: "messages s1 = messages s"
    by (auto simp: bind_err_def split: sum.splits dest: get_or_create_messages)
  from assms ts g obtain m where "s' = s1\<lparr>messages := messages s1 @ [m]\<rparr>"
    "msg_created_at m = now" "msg_timestamp m = of_int ts"
    by (auto simp: process_one_def split: sum.splits prod.splits)
  with m1 n show ?thesis
    by (auto simp: py_int_def split: option.splits)
qed

text \<open>
  C9, as stated, fails: a message without a platform timestamp is stored with the epoch
  as its timestamp, not its arrival time, and a timestamp in the year 3000 or before
  the epoch is stored as it is.
\<close>

theorem timestamp_counterexample:
  "map msg_timestamp (messages (fst (process_one no_str 1700000000 1 empty_store no_timestamp)))
     = [0] \<and>
   map msg_created_at (messages (fst (process_one no_str 1700000000 1 empty_store no_timestamp)))
     = [1700000000] \<and>
   map msg_timestamp (messages (fst (process_one no_str 1700000000 1 empty_store far_future)))
     = [32503680000] \<and>
   map msg_timestamp (messages (fst (process_one no_str 1700000000 1 empty_store before_epoch)))
     = [- 86400]"
  by code_simp

text \<open>
  C9, amended: for every appended inbound message, the stored ordering timestamp is the
  platform timestamp converted by \<open>int()\<close> whenever the message carries one, with no
  plausibility check (a time before the epoch or far in the future is stored as
  given), and the epoch, 0, when the message carries none; the arrival time is kept
  in \<open>created_at\<close> only.
\<close>

theorem stored_timestamp:
  assumes "process_one str_of now c s (JDict d) = (s', None)"
  shows "\<exists>m. messages s' = messages s @ [m] \<and> msg_created_at m = now \<and>
           (case dict_get d ''timestamp'' of
              None \<Rightarrow> msg_timestamp m = 0
            | Some v \<Rightarrow> \<exists>n. py_int v = Inr n \<and> msg_timestamp m = of_int n)"
  using assms by (rule process_one_appended)

theorem stored_timestamp_witness:
  "\<exists>s' d. far_future = JDict d \<and> dict_get d ''timestamp'' = Some (JStr ''32503680000'') \<and>
     py_int (JStr ''32503680000'') = Inr 32503680000 \<and>
     process_one no_str 1700000000 1 empty_store (JDict d) = (s', None) \<and>
     (\<exists>m. messages s' = messages empty_store @ [m] \<and> msg_created_at m = 1700000000 \<and>
        msg_timestamp m = 32503680000)"
proof -
  define d where "d = [(''id'', JStr ''wamid.4''), (''from'', JStr ''15550001''),
      (''timestamp'', JStr ''32503680000''), (''type'', JStr ''text''),
      (''text'', JDict [(''body'', JStr ''hi'')])]"
  define s' where "s' = fst (process_one no_str 1700000000 1 empty_store far_future)"
  have f: "far_future = JDict d"
    by (simp add: far_future_def wa_text_def d_def)
  have t: "dict_get d ''timestamp'' = Some (JStr ''32503680000'')"
    by (simp add: d_def dict_get_def)
  have i: "py_int (JStr ''32503680000'') = Inr 32503680000"
    by code_simp
  have "snd (process_one no_str 1700000000 1 empty_store far_future) = None"
    by code_simp
  then have p: "process_one no_str 1700000000 1 empty_store (JDict d) = (s', None)"
    by (simp add: s'_def f [symmetric] prod_eq_iff)
  from stored_timestamp [OF p] t i obtain m where
    "messages s' = messages empty_store @ [m]" "msg_created_at m = 1700000000"
    "msg_timestamp m = 32503680000"
    by auto
  with f t i p show ?thesis by blast
qed

text \<open>
  C4 on the adapter's parser: of a payload with two messages,
  \<open>process_incoming_message\<close> returns the first alone.
\<close>

theorem adapter_returns_first_only:
  "process_incoming_message no_str two_messages =
     Some \<lparr> ev_external_id = JStr ''wamid.1'', ev_content = JStr ''first'',
            ev_type = JStr ''text'', ev_sender_id = JStr ''15550001'',
            ev_sender_name = JStr [], ev_timestamp = JStr ''1700000000'',
            ev_raw_message = wa_text ''wamid.1'' ''15550001'' ''1700000000'' ''first'' \<rparr>"
  by code_simp

text \<open>Whatever follows the first message of the first change is never read.\<close>

lemma adapter_ignores_the_rest:
  "process_incoming_message str_of (wa_payload (((m # ms) # cs) # es)) =
   process_incoming_message str_of (wa_payload [[[m]]])"
  by (simp add: process_incoming_message_def wa_payload_def wa_entry_def wa_change_def
      bind_err_def get_default_def dict_get_def index0_def py_iter_def parse_message_def
      sender_name_of_def)

text \<open>
  The sibling path, \<open>process_webhook\<close> of the messaging service, stores every message
  of the payload, in the payload's order.
\<close>

lemma webhook_stores_both:
  "snd (process_webhook no_str 1700000002 empty_store two_messages 1) = None \<and>
   map msg_content (messages (fst (process_webhook no_str 1700000002 empty_store two_messages 1)))
     = [''first'', ''second'']"
  by code_simp

lemma get_or_create_companies:
  "get_or_create s k p = Inr (s1, r, c) \<Longrightarrow> companies s1 = companies s"
  by (auto simp: get_or_create_def insert_conversation_def split: sum.splits if_splits)

lemma process_one_plain:
  assumes "unique_together s" and "plain_text m"
  shows "\<exists>s' row. process_one str_of now c s m = (s', None) \<and> unique_together s' \<and>
           companies s' = companies s \<and> messages s' = messages s @ [row] \<and>
           msg_content row = text_body m"
proof -
  from assms(2) obtain i sender ts body n where m: "m = wa_text i sender ts body"
    and p: "parse_int ts = Some n" and f: "fromtimestamp n = Inr n"
    by (auto simp: plain_text_def)
  let ?k = "(c, sender, ''whatsapp'')"
  let ?p = "JList [JDict [(''phone'', JStr sender)]]"
  from get_or_create_unique [OF assms(1), of ?k ?p]
  obtain s1 r cr where g: "get_or_create s ?k ?p = Inr (s1, r, cr)"
    and u: "unique_together s1" and ms: "messages s1 = messages s"
    by blast
  from get_or_create_companies [OF g] have cs: "companies s1 = companies s" .
  have b: "text_body m = body"
    by (simp add: m wa_text_def text_body_def subscript_def dict_get_def bind_err_def)
  show ?thesis
    using g u ms cs p f b
    by (simp add: m wa_text_def process_one_def dict_get_def py_int_def bind_err_def
        char_value_def py_str_def opt_json_def extract_content_def subscript_def
        unique_together_def)
qed

lemma process_messages_plain:
  assumes "unique_together s" and "\<forall>m\<in>set ms. plain_text m"
  shows "\<exists>s' rows. process_messages str_of now c s ms = (s', None) \<and> unique_together s' \<and>
           companies s' = companies s \<and> messages s' = messages s @ rows \<and>
           map msg_content rows = map text_body ms"
  using assms
proof (induction ms arbitrary: s)
  case Nil
  then show ?case by simp
next
  case (Cons m ms)
  from process_one_plain [OF Cons.prems(1), of m str_of now c] Cons.prems(2)
  obtain s1 row where 1: "process_one str_of now c s m = (s1, None)" "unique_together s1"
    "companies s1 = companies s" "messages s1 = messages s @ [row]" "msg_content row = text_body m"
    by auto
  from Cons.IH [OF 1(2)] Cons.prems(2)
  obtain s' rows where 2: "process_messages str_of now c s1 ms = (s', None)" "unique_together s'"
    "companies s' = companies s1" "messages s' = messages s1 @ rows"
    "map msg_content rows = map text_body ms"
    by auto
  from 1 2 show ?case
    by (intro exI [of _ s'] exI [of _ "row # rows"]) simp
qed

lemma process_changes_plain:
  assumes "unique_together s" and "\<forall>m\<in>set (concat cs). plain_text m"
  shows "\<exists>s' rows. process_changes str_of now c s (map wa_change cs) = (s', None) \<and>
           unique_together s' \<and> companies s' = companies s \<and>
           messages s' = messages s @ rows \<and>
           map msg_content rows = map text_body (concat cs)"
  using assms
proof (induction cs arbitrary: s)
  case Nil
  then show ?case by simp
next
  case (Cons ms cs)
  have it: "bind_err (get_default (wa_change ms) ''value'' (JDict [])) (\<lambda>value.
           bind_err (get_default value ''messages'' (JList [])) py_iter) = Inr ms"
    by (simp add: wa_change_def get_default_def dict_get_def bind_err_def py_iter_def)
  from process_messages_plain [OF Cons.prems(1), of ms str_of now c] Cons.prems(2)
  obtain s1 rows1 where 1: "process_messages str_of now c s ms = (s1, None)" "unique_together s1"
    "companies s1 = companies s" "messages s1 = messages s @ rows1"
    "map msg_content rows1 = map text_body ms"
    by auto
  from Cons.IH [OF 1(2)] Cons.prems(2)
  obtain s' rows where 2: "process_changes str_of now c s1 (map wa_change cs) = (s', None)"
    "unique_together s'" "companies s' = companies s1" "messages s' = messages s1 @ rows"
    "map msg_content rows = map text_body (concat cs)"
    by auto
  from 1 2 it show ?case
    by (intro exI [of _ s'] exI [of _ "rows1 @ rows"]) simp
qed

lemma process_entries_plain:
  assumes "unique_together s" and "\<forall>m\<in>set (concat (concat es)). plain_text m"
  shows "\<exists>s' rows. process_entries str_of now c s (map wa_entry es) = (s', None) \<and>
           unique_together s' \<and> companies s' = companies s \<and>
           messages s' = messages s @ rows \<and>
           map msg_content rows = map text_body (concat (concat es))"
  using assms
proof (induction es arbitrary: s)
  case Nil
  then show ?case by simp
next
  case (Cons cs es)
  have it: "bind_err (get_default (wa_entry cs) ''changes'' (JList [])) py_iter
      = Inr (map wa_change cs)"
    by (simp add: wa_entry_def get_default_def dict_get_def bind_err_def py_iter_def)
  from process_changes_plain [OF Cons.prems(1), of cs str_of now c] Cons.prems(2)
  obtain s1 rows1 where 1: "process_changes str_of now c s (map wa_change cs) = (s1, None)"
    "unique_together s1" "companies s1 = companies s" "messages s1 = messages s @ rows1"
    "map msg_content rows1 = map text_body (concat cs)"
    by auto
  from Cons.IH [OF 1(2)] Cons.prems(2)
  obtain s' rows where 2: "process_entries str_of now c s1 (map wa_entry es) = (s', None)"
    "unique_together s'" "companies s' = companies s1" "messages s' = messages s1 @ rows"
    "map msg_content rows = map text_body (concat (concat es))"
    by auto
  from 1 2 it show ?case
    by (intro exI [of _ s'] exI [of _ "rows1 @ rows"]) simp
qed

lemma process_webhook_stores_all:
  assumes "unique_together s" and "c \<in> set (companies s)" and "es \<noteq> []"
    and "\<forall>m\<in>set (concat (concat es)). plain_text m"
  shows "\<exists>s' rows. process_webhook str_of now s (wa_payload es) c = (s', None) \<and>
           messages s' = messages s @ rows \<and>
           map msg_content rows = map text_body (concat (concat es)) \<and>
           length rows = length (concat (concat es))"
proof -
  from process_entries_plain [OF assms(1,4), of str_of now c]
  obtain s' rows where 1: "process_entries str_of now c s (map wa_entry es) = (s', None)"
    "messages s' = messages s @ rows" "map msg_content rows = map text_body (concat (concat es))"
    by blast
  from 1(3) have "length rows = length (concat (concat es))"
    by (metis length_map)
  with 1 assms(2,3) show ?thesis
    by (simp add: process_webhook_def wa_payload_def get_default_def dict_get_def py_iter_def)
qed

section \<open>Replay of a webhook event\<close>






end
